theory Spec2Isabelle
  imports Complex_Main "HOL-Library.Sublist"
begin

section \<open>Tensors\<close>

text \<open>
  Activations are nested lists over the reals: a feature vector, a \<open>(T, C)\<close> matrix of
  one sequence, and a \<open>(B, T, C)\<close> batch. The reals stand for the floating-point
  numbers of the tensor library; every property below is about which values flow where,
  not about rounding.
\<close>

type_synonym vec = "real list"
type_synonym mat = "vec list"
type_synonym tensor3 = "mat list"

definition dot :: "vec \<Rightarrow> vec \<Rightarrow> real" where
  "dot u v = sum_list (map2 (*) u v)"

definition vadd :: "vec \<Rightarrow> vec \<Rightarrow> vec" where
  "vadd u v = map2 (+) u v"

definition madd :: "mat \<Rightarrow> mat \<Rightarrow> mat" where
  "madd a b = map2 vadd a b"

definition tadd :: "tensor3 \<Rightarrow> tensor3 \<Rightarrow> tensor3" where
  "tadd a b = map2 madd a b"

text \<open>\<open>shape3 x B T C\<close>: the batch \<open>x\<close> has shape \<open>(B, T, C)\<close>.\<close>

definition shape3 :: "tensor3 \<Rightarrow> nat \<Rightarrow> nat \<Rightarrow> nat \<Rightarrow> bool" where
  "shape3 x B T C =
     (length x = B \<and> list_all (\<lambda>m. length m = T \<and> list_all (\<lambda>v. length v = C) m) x)"

section \<open>Layers of the tensor library\<close>

text \<open>\<open>nn.Linear\<close>: \<open>y = x W\<^sup>T + b\<close>, the weight stored as \<open>(out, in)\<close>.\<close>

record Linear =
  weight :: mat
  bias :: vec

definition Linear_forward :: "Linear \<Rightarrow> vec \<Rightarrow> vec" where
  "Linear_forward l x = map2 (\<lambda>row b. dot x row + b) (weight l) (bias l)"

text \<open>\<open>nn.LayerNorm\<close> over the last axis, biased variance, \<open>eps = 1e-5\<close>.\<close>

record LayerNorm =
  ln_weight :: vec
  ln_bias :: vec

definition LayerNorm_forward :: "LayerNorm \<Rightarrow> vec \<Rightarrow> vec" where
  "LayerNorm_forward nrm x =
     (let n = real (length x);
          mu = sum_list x / n;
          var = sum_list (map (\<lambda>a. (a - mu)\<^sup>2) x) / n;
          xhat = map (\<lambda>a. (a - mu) / sqrt (var + 1 / 100000)) x
      in vadd (map2 (*) xhat (ln_weight nrm)) (ln_bias nrm))"

text \<open>\<open>nn.GELU(approximate = "tanh")\<close>.\<close>

definition gelu :: "real \<Rightarrow> real" where
  "gelu x = 0.5 * x * (1 + tanh (sqrt (2 / pi) * (x + 0.044715 * x ^ 3)))"

definition softmax :: "vec \<Rightarrow> vec" where
  "softmax s = map (\<lambda>a. exp a / sum_list (map exp s)) s"

text \<open>
  \<open>F.scaled_dot_product_attention(q, k, v, is_causal=True)\<close> for one head of one
  sequence: \<open>q\<close>, \<open>k\<close>, \<open>v\<close> are \<open>(T, hs)\<close>. The query at position \<open>t\<close> sees the keys
  and values at positions \<open>0..t\<close> only (the masked scores are \<open>-inf\<close>, their softmax
  weight is \<open>0\<close>); the scale is \<open>1 / sqrt hs\<close> with \<open>hs\<close> the last dimension of \<open>q\<close>.
\<close>

definition wsum :: "nat \<Rightarrow> vec \<Rightarrow> mat \<Rightarrow> vec" where
  "wsum hs p vs = foldr (\<lambda>(a, v) acc. vadd (map ((*) a) v) acc) (zip p vs) (replicate hs 0)"

definition attend :: "nat \<Rightarrow> vec \<Rightarrow> mat \<Rightarrow> mat \<Rightarrow> vec" where
  "attend hs qt ks vs = wsum hs (softmax (map (\<lambda>ks_s. dot qt ks_s / sqrt (real hs)) ks)) vs"

definition scaled_dot_product_attention :: "nat \<Rightarrow> mat \<Rightarrow> mat \<Rightarrow> mat \<Rightarrow> mat" where
  "scaled_dot_product_attention hs q k v =
     map (\<lambda>t. attend hs (q ! t) (take (Suc t) k) (take (Suc t) v)) [0..<length q]"

section \<open>CausalSelfAttention\<close>

record CausalSelfAttention =
  c_attn :: Linear
  c_proj :: Linear
  attn_n_embd :: nat
  attn_n_head :: nat

text \<open>\<open>x.size()\<close> of a \<open>(B, T, C)\<close> batch: the last dimension.\<close>

definition size_C :: "tensor3 \<Rightarrow> nat" where
  "size_C x = (case concat x of [] \<Rightarrow> 0 | v # _ \<Rightarrow> length v)"

text \<open>\<open>torch.split(qkv, n_embd, dim=2)\<close>: the chunk \<open>i\<close> of width \<open>n_embd\<close>.\<close>

definition split_chunk :: "nat \<Rightarrow> nat \<Rightarrow> tensor3 \<Rightarrow> tensor3" where
  "split_chunk n i qkv = map (map (\<lambda>r. take n (drop (i * n) r))) qkv"

text \<open>
  \<open>t.view(B, T, n_head, C // n_head).transpose(1, 2)\<close>: from \<open>(B, T, C)\<close> to
  \<open>(B, nh, T, hs)\<close>, head \<open>j\<close> holding the features \<open>j * hs ..< (j + 1) * hs\<close>.
\<close>

definition to_heads :: "nat \<Rightarrow> nat \<Rightarrow> tensor3 \<Rightarrow> mat list list" where
  "to_heads nh hs t = map (\<lambda>m. map (\<lambda>j. map (\<lambda>r. take hs (drop (j * hs) r)) m) [0..<nh]) t"

text \<open>
  \<open>y.transpose(1, 2).contiguous().view(B, T, C)\<close>: from \<open>(B, nh, T, hs)\<close> back to
  \<open>(B, T, C)\<close>, the heads of one position side by side.
\<close>

definition from_heads :: "nat \<Rightarrow> mat list list \<Rightarrow> tensor3" where
  "from_heads T y = map (\<lambda>hds. map (\<lambda>t. concat (map (\<lambda>yh. yh ! t) hds)) [0..<T]) y"

text \<open>The value of \<open>y\<close> after line 34 of the source: the attention result.\<close>

definition attention_result :: "CausalSelfAttention \<Rightarrow> tensor3 \<Rightarrow> tensor3" where
  "attention_result a x =
     (let C = size_C x;
          T = (case x of [] \<Rightarrow> 0 | m # _ \<Rightarrow> length m);
          qkv = map (map (Linear_forward (c_attn a))) x;
          q = split_chunk (attn_n_embd a) 0 qkv;
          k = split_chunk (attn_n_embd a) 1 qkv;
          v = split_chunk (attn_n_embd a) 2 qkv;
          hs = C div attn_n_head a;
          q = to_heads (attn_n_head a) hs q;
          k = to_heads (attn_n_head a) hs k;
          v = to_heads (attn_n_head a) hs v;
          y = map (\<lambda>(qb, kb, vb).
                 map (\<lambda>(qh, kh, vh). scaled_dot_product_attention hs qh kh vh)
                     (zip qb (zip kb vb)))
                (zip q (zip k v));
          y = from_heads T y
      in y)"

text \<open>
  \<open>CausalSelfAttention.forward\<close>: lines 23 to 34 compute \<open>y\<close>, line 35 rebinds \<open>y\<close> to
  \<open>self.c_proj(x)\<close>, line 36 returns it.
\<close>

definition CausalSelfAttention_forward :: "CausalSelfAttention \<Rightarrow> tensor3 \<Rightarrow> tensor3" where
  "CausalSelfAttention_forward a x =
     (let y = attention_result a x;
          y = map (map (Linear_forward (c_proj a))) x
      in y)"

section \<open>MLP and Block\<close>

record MLP =
  c_fc :: Linear
  mlp_c_proj :: Linear

definition MLP_forward :: "MLP \<Rightarrow> tensor3 \<Rightarrow> tensor3" where
  "MLP_forward m x =
     (let x = map (map (Linear_forward (c_fc m))) x;
          x = map (map (map gelu)) x;
          x = map (map (Linear_forward (mlp_c_proj m))) x
      in x)"

record Block =
  ln_1 :: LayerNorm
  attn :: CausalSelfAttention
  ln_2 :: LayerNorm
  mlp :: MLP

definition Block_forward :: "Block \<Rightarrow> tensor3 \<Rightarrow> tensor3" where
  "Block_forward b x =
     (let x = tadd x (CausalSelfAttention_forward (attn b) (map (map (LayerNorm_forward (ln_1 b))) x));
          x = tadd x (MLP_forward (mlp b) (map (map (LayerNorm_forward (ln_2 b))) x))
      in x)"

section \<open>GPT\<close>

record GPTConfig =
  block_size :: nat
  vocab_size :: nat
  n_layer :: nat
  n_head :: nat
  n_embd :: nat

datatype error =
    AssertionError string
  | IndexError
  | ValueError
  | RuntimeError
  | KeyError string
  | ZeroDivisionError

text \<open>
  A two-dimensional tensor of token ids: \<open>idx.size()\<close> is \<open>(length (ids t), size_T t)\<close>,
  every row of \<open>ids t\<close> has \<open>size_T t\<close> entries. The second dimension is a field of its
  own, since an empty batch still has one.
\<close>

record LongTensor =
  size_T :: nat
  ids :: "int list list"

definition wf_LongTensor :: "LongTensor \<Rightarrow> bool" where
  "wf_LongTensor t = list_all (\<lambda>r. length r = size_T t) (ids t)"

text \<open>The decimal digits that a format string prints for a non-negative \<open>int\<close>.\<close>

fun str_nat :: "nat \<Rightarrow> string" where
  "str_nat n = (if n < 10 then [''0123456789'' ! n]
                else str_nat (n div 10) @ [''0123456789'' ! (n mod 10)])"

declare str_nat.simps [simp del]

text \<open>
  \<open>nn.Embedding\<close>: row \<open>i\<close> of the table for every id \<open>i\<close> of the input; an id outside
  \<open>[0, num_embeddings)\<close> raises \<open>IndexError\<close>.
\<close>

definition Embedding_forward :: "mat \<Rightarrow> int list \<Rightarrow> error + mat" where
  "Embedding_forward W is =
     (if list_all (\<lambda>i. 0 \<le> i \<and> i < int (length W)) is
      then Inr (map (\<lambda>i. W ! nat i) is) else Inl IndexError)"

definition Embedding_forward2 :: "mat \<Rightarrow> int list list \<Rightarrow> error + tensor3" where
  "Embedding_forward2 W rows =
     (if list_all (list_all (\<lambda>i. 0 \<le> i \<and> i < int (length W))) rows
      then Inr (map (map (\<lambda>i. W ! nat i)) rows) else Inl IndexError)"

text \<open>
  \<open>F.cross_entropy(input, target)\<close> with its defaults (mean reduction,
  \<open>ignore_index = -100\<close>): \<open>input\<close> is \<open>(N, V)\<close>, \<open>target\<close> is \<open>(N,)\<close>. A target that is
  neither \<open>-100\<close> nor a class index raises; the mean is over the targets that are not
  ignored.
\<close>

definition nll :: "vec \<Rightarrow> int \<Rightarrow> real" where
  "nll row c = - (row ! nat c - ln (sum_list (map exp row)))"

definition cross_entropy :: "mat \<Rightarrow> int list \<Rightarrow> error + real" where
  "cross_entropy inp tgt =
     (if length inp \<noteq> length tgt then Inl ValueError
      else if \<not> list_all (\<lambda>(row, c). c = - 100 \<or> (0 \<le> c \<and> c < int (length row))) (zip inp tgt)
      then Inl IndexError
      else let kept = filter (\<lambda>(row, c). c \<noteq> - 100) (zip inp tgt)
           in Inr (sum_list (map (\<lambda>(row, c). nll row c) kept) / real (length kept)))"

record GPT =
  config :: GPTConfig
  wte :: mat
  wpe :: mat
  h :: "Block list"
  ln_f :: LayerNorm
  lm_head :: Linear

definition capacity_message :: "nat \<Rightarrow> nat \<Rightarrow> string" where
  "capacity_message T bs =
     ''Cannot forward sequence of length '' @ str_nat T @ '', block size is only '' @ str_nat bs"

text \<open>\<open>GPT.forward(idx, targets)\<close>; \<open>targets = None\<close> is \<open>None\<close>.\<close>

definition GPT_forward :: "GPT \<Rightarrow> LongTensor \<Rightarrow> LongTensor option \<Rightarrow> error + tensor3 \<times> real option" where
  "GPT_forward g idx targets =
     (let T = size_T idx in
      if \<not> T < block_size (config g)
      then Inl (AssertionError (capacity_message T (block_size (config g))))
      else
        case Embedding_forward (wpe g) (map int [0..<T]) of
          Inl e \<Rightarrow> Inl e
        | Inr pos_embd \<Rightarrow>
        (case Embedding_forward2 (wte g) (ids idx) of
          Inl e \<Rightarrow> Inl e
        | Inr tok_embd \<Rightarrow>
          let x = map (madd pos_embd) tok_embd;
              x = fold Block_forward (h g) x;
              logits = map (map (LayerNorm_forward (ln_f g))) x;
              logits = map (map (Linear_forward (lm_head g))) logits
          in (case targets of
                None \<Rightarrow> Inr (logits, None)
              | Some tg \<Rightarrow>
                 (case cross_entropy (concat logits) (concat (ids tg)) of
                    Inl e \<Rightarrow> Inl e
                  | Inr loss \<Rightarrow> Inr (logits, Some loss)))))"

section \<open>Concrete layers and inputs\<close>

text \<open>
  An attention layer of width one with one head whose value projection is the identity
  and whose query and key projections are zero, and a sequence of two positions.
\<close>

definition attn_example :: CausalSelfAttention where
  "attn_example = \<lparr>c_attn = \<lparr>weight = [[0], [0], [1]], bias = [0, 0, 0]\<rparr>,
                    c_proj = \<lparr>weight = [[1]], bias = [0]\<rparr>,
                    attn_n_embd = 1, attn_n_head = 1\<rparr>"

definition x_example :: tensor3 where
  "x_example = [[[1], [2]]]"

section \<open>Models that differ in the query/key/value projection only\<close>

definition differ_only_in_c_attn :: "GPT \<Rightarrow> GPT \<Rightarrow> bool" where
  "differ_only_in_c_attn g g' =
     (config g = config g' \<and> wte g = wte g' \<and> wpe g = wpe g' \<and> ln_f g = ln_f g' \<and>
      lm_head g = lm_head g' \<and>
      list_all2 (\<lambda>b b'. ln_1 b = ln_1 b' \<and> ln_2 b = ln_2 b' \<and> mlp b = mlp b' \<and>
                   c_proj (attn b) = c_proj (attn b') \<and>
                   attn_n_embd (attn b) = attn_n_embd (attn b') \<and>
                   attn_n_head (attn b) = attn_n_head (attn b')) (h g) (h g'))"

text \<open>
  A model with one block, width one, two tokens and room for four positions; a second
  one with other query/key/value weights; a batch of two sequences of three tokens.
\<close>

definition ln_example :: LayerNorm where
  "ln_example = \<lparr>ln_weight = [1], ln_bias = [1]\<rparr>"

definition block_example :: Block where
  "block_example =
     \<lparr>ln_1 = ln_example, attn = attn_example, ln_2 = ln_example,
      mlp = \<lparr>c_fc = \<lparr>weight = [[0], [0], [0], [0]], bias = [0, 0, 0, 0]\<rparr>,
             mlp_c_proj = \<lparr>weight = [[1, 0, 0, 0]], bias = [1]\<rparr>\<rparr>\<rparr>"

definition gpt_example :: GPT where
  "gpt_example =
     \<lparr>config = \<lparr>block_size = 4, vocab_size = 2, n_layer = 1, n_head = 1, n_embd = 1\<rparr>,
      wte = [[1], [2]], wpe = [[0], [1], [2], [3]], h = [block_example],
      ln_f = ln_example, lm_head = \<lparr>weight = [[1], [2]], bias = [0, 0]\<rparr>\<rparr>"

definition gpt_example_other_c_attn :: GPT where
  "gpt_example_other_c_attn =
     gpt_example\<lparr>h := [block_example\<lparr>attn :=
        attn_example\<lparr>c_attn := \<lparr>weight = [[5], [7], [9]], bias = [1, 2, 3]\<rparr>\<rparr>\<rparr>]\<rparr>"

definition idx_example :: LongTensor where
  "idx_example = \<lparr>size_T = 3, ids = [[0, 1, 0], [1, 1, 0]]\<rparr>"

definition idx_too_long :: LongTensor where
  "idx_too_long = \<lparr>size_T = 4, ids = [[0, 1, 0, 1]]\<rparr>"

section \<open>Shapes fixed by the constructors\<close>

text \<open>
  The shapes that the \<open>__init__\<close> methods give the parameters (lines 14, 16, 43, 45,
  62 to 65 and 88 to 94 of the source), for a configuration \<open>cfg\<close>.
\<close>

definition wf_Linear :: "nat \<Rightarrow> nat \<Rightarrow> Linear \<Rightarrow> bool" where
  "wf_Linear n_in n_out l =
     (length (weight l) = n_out \<and> list_all (\<lambda>r. length r = n_in) (weight l) \<and>
      length (bias l) = n_out)"

definition wf_LayerNorm :: "nat \<Rightarrow> LayerNorm \<Rightarrow> bool" where
  "wf_LayerNorm n nrm = (length (ln_weight nrm) = n \<and> length (ln_bias nrm) = n)"

definition wf_CausalSelfAttention :: "GPTConfig \<Rightarrow> CausalSelfAttention \<Rightarrow> bool" where
  "wf_CausalSelfAttention cfg a =
     (n_embd cfg mod n_head cfg = 0 \<and>
      wf_Linear (n_embd cfg) (3 * n_embd cfg) (c_attn a) \<and>
      wf_Linear (n_embd cfg) (n_embd cfg) (c_proj a) \<and>
      attn_n_embd a = n_embd cfg \<and> attn_n_head a = n_head cfg)"

definition wf_MLP :: "GPTConfig \<Rightarrow> MLP \<Rightarrow> bool" where
  "wf_MLP cfg m =
     (wf_Linear (n_embd cfg) (4 * n_embd cfg) (c_fc m) \<and>
      wf_Linear (4 * n_embd cfg) (n_embd cfg) (mlp_c_proj m))"

definition wf_Block :: "GPTConfig \<Rightarrow> Block \<Rightarrow> bool" where
  "wf_Block cfg b =
     (wf_LayerNorm (n_embd cfg) (ln_1 b) \<and> wf_CausalSelfAttention cfg (attn b) \<and>
      wf_LayerNorm (n_embd cfg) (ln_2 b) \<and> wf_MLP cfg (mlp b))"

definition wf_GPT :: "GPT \<Rightarrow> bool" where
  "wf_GPT g =
     (let cfg = config g in
      length (wte g) = vocab_size cfg \<and> list_all (\<lambda>r. length r = n_embd cfg) (wte g) \<and>
      length (wpe g) = block_size cfg \<and> list_all (\<lambda>r. length r = n_embd cfg) (wpe g) \<and>
      length (h g) = n_layer cfg \<and> list_all (wf_Block cfg) (h g) \<and>
      wf_LayerNorm (n_embd cfg) (ln_f g) \<and>
      wf_Linear (n_embd cfg) (vocab_size cfg) (lm_head g))"

text \<open>
  The block as the specification words it: \<open>x' = x + Attention(LayerNorm_1(x))\<close>,
  \<open>x'' = x' + FeedForward(LayerNorm_2(x'))\<close>, for any four sub-layers.
\<close>

definition prenorm_residual ::
  "(tensor3 \<Rightarrow> tensor3) \<Rightarrow> (tensor3 \<Rightarrow> tensor3) \<Rightarrow> (tensor3 \<Rightarrow> tensor3) \<Rightarrow>
   (tensor3 \<Rightarrow> tensor3) \<Rightarrow> tensor3 \<Rightarrow> tensor3" where
  "prenorm_residual LayerNorm_1 Attention LayerNorm_2 FeedForward x =
     (let x' = tadd x (Attention (LayerNorm_1 x));
          x'' = tadd x' (FeedForward (LayerNorm_2 x'))
      in x'')"

text \<open>What one block does to the feature vector of one position.\<close>

definition Block_at_position :: "Block \<Rightarrow> vec \<Rightarrow> vec" where
  "Block_at_position b v =
     (let v = vadd v (Linear_forward (c_proj (attn b)) (LayerNorm_forward (ln_1 b) v));
          v = vadd v (Linear_forward (mlp_c_proj (mlp b))
                        (map gelu (Linear_forward (c_fc (mlp b)) (LayerNorm_forward (ln_2 b) v))))
      in v)"

section \<open>The forward pass, position by position\<close>

text \<open>
  The logits of the token \<open>i\<close> at position \<open>t\<close>, and the token ids that the embedding
  table and the loss accept.
\<close>

definition logits_at :: "GPT \<Rightarrow> nat \<Rightarrow> int \<Rightarrow> vec" where
  "logits_at g t i =
     Linear_forward (lm_head g) (LayerNorm_forward (ln_f g)
       (fold Block_at_position (h g) (vadd (wpe g ! t) (wte g ! nat i))))"

definition valid_ids :: "GPT \<Rightarrow> LongTensor \<Rightarrow> bool" where
  "valid_ids g t = list_all (list_all (\<lambda>i. 0 \<le> i \<and> i < int (vocab_size (config g)))) (ids t)"

text \<open>
  The loss as the specification words it: the mean over all \<open>B * T\<close> positions of the
  cross-entropy between the logits and the target of that position.
\<close>

definition mean_cross_entropy :: "tensor3 \<Rightarrow> int list list \<Rightarrow> nat \<Rightarrow> nat \<Rightarrow> real" where
  "mean_cross_entropy logits tgt B T =
     (\<Sum>b<B. \<Sum>t<T. nll (logits ! b ! t) (tgt ! b ! t)) / real (B * T)"

text \<open>A batch that differs from \<open>idx_example\<close> at the last position only, and targets.\<close>

definition idx_perturbed :: LongTensor where
  "idx_perturbed = \<lparr>size_T = 3, ids = [[0, 1, 1], [1, 1, 1]]\<rparr>"

definition targets_example :: LongTensor where
  "targets_example = \<lparr>size_T = 3, ids = [[1, 0, 1], [1, 0, 0]]\<rparr>"

section \<open>The module tree and the initialization policy\<close>

text \<open>
  The modules that the constructors register, as a tree: the leaves are the layers of
  the library, with the sizes they are built with; a \<open>Linear_m\<close> also records whether
  the constructor set the attribute \<open>NANOGPT_SCALE_INIT\<close> on it. \<open>Container\<close> is every
  module that only holds named children (\<open>ModuleDict\<close>, \<open>ModuleList\<close>, \<open>Block\<close>,
  \<open>CausalSelfAttention\<close>, \<open>MLP\<close>, \<open>GPT\<close>), in registration order.
\<close>

datatype Module =
    Linear_m nat nat bool
  | Embedding_m nat nat
  | LayerNorm_m nat
  | GELU_m
  | Container "(string \<times> Module) list"

definition CausalSelfAttention_init :: "GPTConfig \<Rightarrow> Module" where
  "CausalSelfAttention_init cfg =
     Container [(''c_attn'', Linear_m (n_embd cfg) (3 * n_embd cfg) False),
                (''c_proj'', Linear_m (n_embd cfg) (n_embd cfg) True)]"

definition MLP_init :: "GPTConfig \<Rightarrow> Module" where
  "MLP_init cfg =
     Container [(''c_fc'', Linear_m (n_embd cfg) (4 * n_embd cfg) False),
                (''gelu'', GELU_m),
                (''c_proj'', Linear_m (4 * n_embd cfg) (n_embd cfg) True)]"

definition Block_init :: "GPTConfig \<Rightarrow> Module" where
  "Block_init cfg =
     Container [(''ln_1'', LayerNorm_m (n_embd cfg)),
                (''attn'', CausalSelfAttention_init cfg),
                (''ln_2'', LayerNorm_m (n_embd cfg)),
                (''mlp'', MLP_init cfg)]"

definition GPT_modules :: "GPTConfig \<Rightarrow> Module" where
  "GPT_modules cfg =
     Container
       [(''transformer'', Container
           [(''wte'', Embedding_m (vocab_size cfg) (n_embd cfg)),
            (''wpe'', Embedding_m (block_size cfg) (n_embd cfg)),
            (''h'', Container (map (\<lambda>i. (str_nat i, Block_init cfg)) [0..<n_layer cfg])),
            (''ln_f'', LayerNorm_m (n_embd cfg))]),
        (''lm_head'', Linear_m (n_embd cfg) (vocab_size cfg) False)]"

text \<open>The dotted path of a child \<open>n\<close> of the module at path \<open>p\<close>.\<close>

definition join :: "string \<Rightarrow> string \<Rightarrow> string" where
  "join p n = (if p = [] then n else p @ ''.'' @ n)"

text \<open>\<open>Module.apply(fn)\<close> calls \<open>fn\<close> on the children first, then on the module itself.\<close>

fun apply_order :: "string \<Rightarrow> Module \<Rightarrow> (string \<times> Module) list" where
  "apply_order p (Container cs) =
     concat (map (\<lambda>(n, c). apply_order (join p n) c) cs) @ [(p, Container cs)]"
| "apply_order p m = [(p, m)]"

text \<open>
  A call of \<open>torch.nn.init.normal_(tensor, mean, std)\<close> or of
  \<open>torch.nn.init.zeros_(tensor)\<close>, the tensor given by its dotted name.
\<close>

datatype init_call = init_normal string real real | init_zeros string

text \<open>
  \<open>GPT._init_weights\<close>, as the calls it makes. \<open>(2 * n_layer) ** (-0.5)\<close> is evaluated
  for a layer with \<open>NANOGPT_SCALE_INIT\<close> only, and such a layer is part of a block, so
  \<open>n_layer\<close> is positive when it is.
\<close>

fun init_weights :: "GPTConfig \<Rightarrow> string \<times> Module \<Rightarrow> init_call list" where
  "init_weights cfg (p, Linear_m n_in n_out scale_init) =
     (let std = 0.02;
          std = (if scale_init then std * (2 * real (n_layer cfg)) powr (- 0.5) else std)
      in [init_normal (join p ''weight'') 0 std, init_zeros (join p ''bias'')])"
| "init_weights cfg (p, Embedding_m n d) = [init_normal (join p ''weight'') 0 0.02]"
| "init_weights cfg (p, m) = []"

text \<open>\<open>self.apply(self._init_weights)\<close> in \<open>GPT.__init__\<close>.\<close>

definition init_calls :: "GPTConfig \<Rightarrow> init_call list" where
  "init_calls cfg = concat (map (init_weights cfg) (apply_order [] (GPT_modules cfg)))"

section \<open>The model object: named parameters and their tensors\<close>

text \<open>
  A parameter tensor as the library stores it: a shape and the entries in row-major
  order.
\<close>

record Tensor =
  shape :: "nat list"
  data :: "real list"

text \<open>
  A model object: \<open>params\<close> binds every parameter name (the keys of \<open>state_dict()\<close>, in
  its order) to the address of a tensor, \<open>heap\<close> holds the tensors. Two names bound to
  one address are one tensor.
\<close>

record GPT_object =
  params :: "(string \<times> nat) list"
  heap :: "Tensor list"

text \<open>
  The tensors that the constructors allocate, by name, in registration order. \<open>reset\<close>
  stands for the library's own first values of a linear layer or an embedding (every
  one of them is overwritten by \<open>_init_weights\<close>); a \<open>LayerNorm\<close> starts as ones and zeros.
\<close>

fun construct_parameters :: "(string \<Rightarrow> nat \<Rightarrow> real list) \<Rightarrow> string \<Rightarrow> Module \<Rightarrow> (string \<times> Tensor) list" where
  "construct_parameters reset p (Linear_m n_in n_out s) =
     [(join p ''weight'', \<lparr>shape = [n_out, n_in], data = reset (join p ''weight'') (n_out * n_in)\<rparr>),
      (join p ''bias'', \<lparr>shape = [n_out], data = reset (join p ''bias'') n_out\<rparr>)]"
| "construct_parameters reset p (Embedding_m n d) =
     [(join p ''weight'', \<lparr>shape = [n, d], data = reset (join p ''weight'') (n * d)\<rparr>)]"
| "construct_parameters reset p (LayerNorm_m n) =
     [(join p ''weight'', \<lparr>shape = [n], data = replicate n 1\<rparr>),
      (join p ''bias'', \<lparr>shape = [n], data = replicate n 0\<rparr>)]"
| "construct_parameters reset p GELU_m = []"
| "construct_parameters reset p (Container cs) = concat (map (\<lambda>(n, c). construct_parameters reset (join p n) c) cs)"

text \<open>Assigning a tensor to an attribute: the name \<open>n\<close> is bound to the address \<open>a\<close>.\<close>

definition rebind :: "string \<Rightarrow> nat \<Rightarrow> GPT_object \<Rightarrow> GPT_object" where
  "rebind n a m = m\<lparr>params := map (\<lambda>(k, b). if k = n then (k, a) else (k, b)) (params m)\<rparr>"

text \<open>
  An in-place operation on the tensor named \<open>n\<close> (\<open>normal_\<close>, \<open>zeros_\<close>, \<open>copy_\<close>, an
  optimizer step): the tensor at its address changes, no name is rebound.
\<close>

definition update_in_place :: "string \<Rightarrow> (Tensor \<Rightarrow> Tensor) \<Rightarrow> GPT_object \<Rightarrow> GPT_object" where
  "update_in_place n f m =
     (case map_of (params m) n of
        None \<Rightarrow> m
      | Some a \<Rightarrow> m\<lparr>heap := (heap m)[a := f (heap m ! a)]\<rparr>)"

definition tensor_of :: "GPT_object \<Rightarrow> string \<Rightarrow> Tensor option" where
  "tensor_of m n =
     (case map_of (params m) n of
        None \<Rightarrow> None
      | Some a \<Rightarrow> if a < length (heap m) then Some (heap m ! a) else None)"

definition in_place_updates :: "(string \<times> (Tensor \<Rightarrow> Tensor)) list \<Rightarrow> GPT_object \<Rightarrow> GPT_object" where
  "in_place_updates us m = fold (\<lambda>(n, f). update_in_place n f) us m"

text \<open>
  One call of \<open>_init_weights\<close> carried out: \<open>normal k mean std n\<close> stands for the \<open>n\<close>
  numbers that the \<open>k\<close>-th call draws.
\<close>

fun run_init_call :: "(nat \<Rightarrow> real \<Rightarrow> real \<Rightarrow> nat \<Rightarrow> real list) \<Rightarrow> nat \<times> init_call \<Rightarrow> GPT_object \<Rightarrow> GPT_object" where
  "run_init_call normal (k, init_normal n mean std) m =
     update_in_place n (\<lambda>t. t\<lparr>data := normal k mean std (prod_list (shape t))\<rparr>) m"
| "run_init_call normal (k, init_zeros n) m =
     update_in_place n (\<lambda>t. t\<lparr>data := replicate (prod_list (shape t)) 0\<rparr>) m"

text \<open>
  \<open>GPT.__init__\<close>: the modules are built (the assertion of line 12 is met once in every
  block), line 97 binds \<open>transformer.wte.weight\<close> to the tensor of \<open>lm_head.weight\<close>, line
  100 applies \<open>_init_weights\<close>.
\<close>

definition GPT_init ::
  "GPTConfig \<Rightarrow> (string \<Rightarrow> nat \<Rightarrow> real list) \<Rightarrow> (nat \<Rightarrow> real \<Rightarrow> real \<Rightarrow> nat \<Rightarrow> real list) \<Rightarrow> error + GPT_object" where
  "GPT_init cfg reset normal =
     (if 0 < n_layer cfg \<and> n_head cfg = 0 then Inl ZeroDivisionError
      else if 0 < n_layer cfg \<and> n_embd cfg mod n_head cfg \<noteq> 0 then Inl (AssertionError [])
      else
        let ts = construct_parameters reset [] (GPT_modules cfg);
            m = \<lparr>params = zip (map fst ts) [0..<length ts], heap = map snd ts\<rparr>;
            m = (case map_of (params m) ''lm_head.weight'' of
                   None \<Rightarrow> m
                 | Some a \<Rightarrow> rebind ''transformer.wte.weight'' a m);
            m = fold (run_init_call normal) (enumerate 0 (init_calls cfg)) m
        in Inr m)"

section \<open>Importing a checkpoint\<close>

definition endswith :: "string \<Rightarrow> string \<Rightarrow> bool" where
  "endswith k w = suffix w k"

definition transposed :: "string list" where
  "transposed = [''attn.c_attn.weight'', ''attn.c_proj.weight'', ''mlp.c_fc.weight'', ''mlp.c_proj.weight'']"

definition is_transposed :: "string \<Rightarrow> bool" where
  "is_transposed k = list_ex (endswith k) transposed"

text \<open>
  \<open>Tensor.t()\<close>: the transpose of a two-dimensional tensor, the tensor itself below two
  dimensions, an error above.
\<close>

definition tensor_t :: "Tensor \<Rightarrow> error + Tensor" where
  "tensor_t x =
     (case shape x of
        [r, c] \<Rightarrow> Inr \<lparr>shape = [c, r],
                      data = concat (map (\<lambda>j. map (\<lambda>i. data x ! (i * c + j)) [0..<r]) [0..<c])\<rparr>
      | [] \<Rightarrow> Inr x
      | [n] \<Rightarrow> Inr x
      | _ \<Rightarrow> Inl RuntimeError)"

text \<open>\<open>sd[k].copy_(src)\<close>, once the shapes have been compared.\<close>

definition tensor_copy :: "string \<Rightarrow> Tensor \<Rightarrow> GPT_object \<Rightarrow> GPT_object" where
  "tensor_copy k src m = update_in_place k (\<lambda>dst. dst\<lparr>data := data src\<rparr>) m"

text \<open>The body of the loop of lines 168 to 178, for the foreign key \<open>k\<close>.\<close>

definition copy_param :: "(string \<times> Tensor) list \<Rightarrow> string \<Rightarrow> GPT_object \<Rightarrow> error + GPT_object" where
  "copy_param sd_hf k m =
     (case map_of sd_hf k of
        None \<Rightarrow> Inl (KeyError k)
      | Some src \<Rightarrow>
         (case tensor_of m k of
            None \<Rightarrow> Inl (KeyError k)
          | Some dst \<Rightarrow>
              if is_transposed k then
                if rev (shape src) \<noteq> shape dst then Inl (AssertionError [])
                else (case tensor_t src of
                        Inl e \<Rightarrow> Inl e
                      | Inr src_t \<Rightarrow> Inr (tensor_copy k src_t m))
              else
                if shape src \<noteq> shape dst then Inl (AssertionError [])
                else Inr (tensor_copy k src m)))"

text \<open>
  How lines 152 to 180 end: an exception, with the model object as it is at that
  moment, or the model returned.
\<close>

datatype import_result = Raised error GPT_object | Returned GPT_object

fun copy_loop :: "(string \<times> Tensor) list \<Rightarrow> string list \<Rightarrow> GPT_object \<Rightarrow> import_result" where
  "copy_loop sd_hf [] m = Returned m"
| "copy_loop sd_hf (k # ks) m =
     (case copy_param sd_hf k m of
        Inl e \<Rightarrow> Raised e m
      | Inr m' \<Rightarrow> copy_loop sd_hf ks m')"

text \<open>Lines 153 to 154 and 161 to 163: the keys without the mask buffers.\<close>

definition local_keys :: "GPT_object \<Rightarrow> string list" where
  "local_keys m = filter (\<lambda>k. \<not> endswith k ''.attn.bias'') (map fst (params m))"

definition foreign_keys :: "(string \<times> Tensor) list \<Rightarrow> string list" where
  "foreign_keys sd_hf =
     (let sd_keys_hf = map fst sd_hf;
          sd_keys_hf = filter (\<lambda>k. \<not> endswith k ''.attn.masked_bias'') sd_keys_hf;
          sd_keys_hf = filter (\<lambda>k. \<not> endswith k ''.attn.bias'') sd_keys_hf
      in sd_keys_hf)"

text \<open>
  Lines 152 to 180, for the model \<open>m\<close> and the state dict \<open>sd_hf\<close> of the foreign model.
\<close>

definition import_checkpoint :: "GPT_object \<Rightarrow> (string \<times> Tensor) list \<Rightarrow> import_result" where
  "import_checkpoint m sd_hf =
     (let sd_keys = local_keys m;
          sd_keys_hf = foreign_keys sd_hf
      in if length sd_keys_hf \<noteq> length sd_keys
         then Raised (AssertionError (''mismatched keys: '' @ str_nat (length sd_keys_hf) @ '' != '' @
                                      str_nat (length sd_keys))) m
         else copy_loop sd_hf sd_keys_hf m)"

text \<open>
  \<open>GPT.from_pretrained(model_type)\<close>, lines 134 to 180: \<open>sd_hf\<close> is the state dict of the
  model that the foreign library loads for \<open>model_type\<close>. An exception leaves no model to
  the caller.
\<close>

definition config_args :: "string \<Rightarrow> (nat \<times> nat \<times> nat) option" where
  "config_args model_type =
     map_of [(''gpt2'', (12, 12, 768)), (''gpt2-medium'', (24, 16, 1024)),
             (''gpt2-large'', (36, 20, 1280)), (''gpt2-xl'', (48, 25, 1600))] model_type"

definition from_pretrained ::
  "string \<Rightarrow> (string \<Rightarrow> nat \<Rightarrow> real list) \<Rightarrow> (nat \<Rightarrow> real \<Rightarrow> real \<Rightarrow> nat \<Rightarrow> real list) \<Rightarrow>
   (string \<times> Tensor) list \<Rightarrow> error + GPT_object" where
  "from_pretrained model_type reset normal sd_hf =
     (case config_args model_type of
        None \<Rightarrow> Inl (AssertionError [])
      | Some (l, nh, e) \<Rightarrow>
          let config = \<lparr>block_size = 1024, vocab_size = 50257, n_layer = l, n_head = nh, n_embd = e\<rparr>
          in (case GPT_init config reset normal of
                Inl err \<Rightarrow> Inl err
              | Inr model \<Rightarrow>
                  (case import_checkpoint model sd_hf of
                     Raised err m \<Rightarrow> Inl err
                   | Returned m \<Rightarrow> Inr m)))"

text \<open>
  The four roles that the specification names, for every block: the combined
  query/key/value projection, the attention output projection, the feed-forward
  up-projection and the feed-forward down-projection.
\<close>

definition block_prefix :: "nat \<Rightarrow> string" where
  "block_prefix i = ''transformer.h.'' @ str_nat i"

definition transposed_roles :: "GPTConfig \<Rightarrow> string list" where
  "transposed_roles cfg =
     concat (map (\<lambda>i. map (\<lambda>s. block_prefix i @ s)
                   [''.attn.c_attn.weight'', ''.attn.c_proj.weight'',
                    ''.mlp.c_fc.weight'', ''.mlp.c_proj.weight''])
               [0..<n_layer cfg])"

text \<open>The entry \<open>[i][j]\<close> of a two-dimensional tensor.\<close>

definition entry2 :: "Tensor \<Rightarrow> nat \<Rightarrow> nat \<Rightarrow> real" where
  "entry2 t i j = data t ! (i * (shape t ! 1) + j)"

section \<open>A small model object\<close>

text \<open>
  The model of one block and width one, built with fillers that put \<open>0\<close> for the
  library's first values and \<open>mean + k\<close> for the draws of the \<open>k\<close>-th call.
\<close>

definition cfg_tiny :: GPTConfig where
  "cfg_tiny = \<lparr>block_size = 1, vocab_size = 1, n_layer = 1, n_head = 1, n_embd = 1\<rparr>"

definition sample_reset :: "string \<Rightarrow> nat \<Rightarrow> real list" where
  "sample_reset name n = replicate n 0"

definition sample_normal :: "nat \<Rightarrow> real \<Rightarrow> real \<Rightarrow> nat \<Rightarrow> real list" where
  "sample_normal k mean std n = replicate n (mean + real k)"

definition model_tiny :: GPT_object where
  "model_tiny =
     \<lparr>params =
        [(''transformer.wte.weight'', 16), (''transformer.wpe.weight'', 1),
         (''transformer.h.0.ln_1.weight'', 2), (''transformer.h.0.ln_1.bias'', 3),
         (''transformer.h.0.attn.c_attn.weight'', 4), (''transformer.h.0.attn.c_attn.bias'', 5),
         (''transformer.h.0.attn.c_proj.weight'', 6), (''transformer.h.0.attn.c_proj.bias'', 7),
         (''transformer.h.0.ln_2.weight'', 8), (''transformer.h.0.ln_2.bias'', 9),
         (''transformer.h.0.mlp.c_fc.weight'', 10), (''transformer.h.0.mlp.c_fc.bias'', 11),
         (''transformer.h.0.mlp.c_proj.weight'', 12), (''transformer.h.0.mlp.c_proj.bias'', 13),
         (''transformer.ln_f.weight'', 14), (''transformer.ln_f.bias'', 15),
         (''lm_head.weight'', 16), (''lm_head.bias'', 17)],
      heap =
        [\<lparr>shape = [1, 1], data = [0]\<rparr>, \<lparr>shape = [1, 1], data = [1]\<rparr>,
         \<lparr>shape = [1], data = [1]\<rparr>, \<lparr>shape = [1], data = [0]\<rparr>,
         \<lparr>shape = [3, 1], data = [2, 2, 2]\<rparr>, \<lparr>shape = [3], data = [0, 0, 0]\<rparr>,
         \<lparr>shape = [1, 1], data = [4]\<rparr>, \<lparr>shape = [1], data = [0]\<rparr>,
         \<lparr>shape = [1], data = [1]\<rparr>, \<lparr>shape = [1], data = [0]\<rparr>,
         \<lparr>shape = [4, 1], data = [6, 6, 6, 6]\<rparr>, \<lparr>shape = [4], data = [0, 0, 0, 0]\<rparr>,
         \<lparr>shape = [1, 4], data = [8, 8, 8, 8]\<rparr>, \<lparr>shape = [1], data = [0]\<rparr>,
         \<lparr>shape = [1], data = [1]\<rparr>, \<lparr>shape = [1], data = [0]\<rparr>,
         \<lparr>shape = [1, 1], data = [10]\<rparr>, \<lparr>shape = [1], data = [0]\<rparr>]\<rparr>"

section \<open>The parameter names of a model\<close>

text \<open>
  The names of the parameters of one block after its prefix, those among them that
  belong to the four roles, and the names outside the blocks.
\<close>

definition block_tails :: "string list" where
  "block_tails =
     [''.ln_1.weight'', ''.ln_1.bias'', ''.attn.c_attn.weight'', ''.attn.c_attn.bias'',
      ''.attn.c_proj.weight'', ''.attn.c_proj.bias'', ''.ln_2.weight'', ''.ln_2.bias'',
      ''.mlp.c_fc.weight'', ''.mlp.c_fc.bias'', ''.mlp.c_proj.weight'', ''.mlp.c_proj.bias'']"

definition role_tails :: "string list" where
  "role_tails = [''.attn.c_attn.weight'', ''.attn.c_proj.weight'',
                 ''.mlp.c_fc.weight'', ''.mlp.c_proj.weight'']"

definition fixed_names :: "string list" where
  "fixed_names = [''transformer.wte.weight'', ''transformer.wpe.weight'',
      ''transformer.ln_f.weight'', ''transformer.ln_f.bias'', ''lm_head.weight'', ''lm_head.bias'']"

text \<open>
  Two foreign state dicts for \<open>model_tiny\<close>: one whose second tensor has another shape
  than the local one, and one that lacks the last parameter.
\<close>

definition sd_bad_shape :: "(string \<times> Tensor) list" where
  "sd_bad_shape =
     [(''transformer.wte.weight'', \<lparr>shape = [1, 1], data = [7]\<rparr>),
      (''transformer.wpe.weight'', \<lparr>shape = [2, 1], data = [0, 0]\<rparr>)] @
     map (\<lambda>(n, a). (n, heap model_tiny ! a)) (drop 2 (params model_tiny))"

definition sd_one_fewer :: "(string \<times> Tensor) list" where
  "sd_one_fewer = map (\<lambda>(n, a). (n, heap model_tiny ! a)) (butlast (params model_tiny))"

section \<open>The states of the import loop, and checkpoints to import\<close>

text \<open>
  What the body of the loop copies at the key \<open>k\<close> when its checks pass (lines 173 and
  178), and the model after these copies for a list of keys. They are not functions of
  the source: they name the states that \<open>copy_loop\<close> goes through.
\<close>

definition copied_value :: "(string \<times> Tensor) list \<Rightarrow> string \<Rightarrow> Tensor" where
  "copied_value sd_hf k =
     (case map_of sd_hf k of
        None \<Rightarrow> \<lparr>shape = [], data = []\<rparr>
      | Some src \<Rightarrow>
          if is_transposed k then (case tensor_t src of Inl e \<Rightarrow> src | Inr src_t \<Rightarrow> src_t)
          else src)"

definition copies :: "(string \<times> Tensor) list \<Rightarrow> string list \<Rightarrow> GPT_object \<Rightarrow> GPT_object" where
  "copies sd_hf ks m = fold (\<lambda>k. tensor_copy k (copied_value sd_hf k)) ks m"

text \<open>
  The state dict of a model as the foreign library would store it: the parameters that
  the import transposes are transposed, every other one is as it is.
\<close>

definition exported :: "GPT_object \<Rightarrow> (string \<times> Tensor) list" where
  "exported m =
     map (\<lambda>(n, a). (n, let t = heap m ! a
                        in if is_transposed n
                           then (case tensor_t t of Inl e \<Rightarrow> t | Inr t' \<Rightarrow> t')
                           else t))
         (params m)"

text \<open>
  The configuration that \<open>from_pretrained\<close> builds for \<open>gpt2\<close>, the model that the
  constructor makes of it, and the state dict of that model without its last parameter.
\<close>

definition cfg_gpt2 :: GPTConfig where
  "cfg_gpt2 = \<lparr>block_size = 1024, vocab_size = 50257, n_layer = 12, n_head = 12, n_embd = 768\<rparr>"

definition model_gpt2 :: GPT_object where
  "model_gpt2 =
     (case GPT_init cfg_gpt2 sample_reset sample_normal of
        Inl e \<Rightarrow> \<lparr>params = [], heap = []\<rparr>
      | Inr m \<Rightarrow> m)"

definition sd_gpt2_one_fewer :: "(string \<times> Tensor) list" where
  "sd_gpt2_one_fewer = butlast (exported model_gpt2)"

text \<open>
  A model of one block with two-dimensional embeddings, and a foreign state dict for it
  with chosen entries in one transposed weight and in one plain tensor.
\<close>

definition cfg_small :: GPTConfig where
  "cfg_small = \<lparr>block_size = 1, vocab_size = 1, n_layer = 1, n_head = 1, n_embd = 2\<rparr>"

definition model_small :: GPT_object where
  "model_small =
     (case GPT_init cfg_small sample_reset sample_normal of
        Inl e \<Rightarrow> \<lparr>params = [], heap = []\<rparr>
      | Inr m \<Rightarrow> m)"

definition sd_small :: "(string \<times> Tensor) list" where
  "sd_small =
     map (\<lambda>(n, t). if n = ''transformer.h.0.attn.c_proj.weight''
                    then (n, \<lparr>shape = [2, 2], data = [1, 2, 3, 4]\<rparr>)
                    else if n = ''transformer.wpe.weight''
                    then (n, \<lparr>shape = [1, 2], data = [5, 6]\<rparr>) else (n, t))
         (exported model_small)"

text \<open>
  A foreign state dict for \<open>model_tiny\<close> whose first tensor has new data and whose
  tensor for \<open>lm_head.weight\<close> has another shape than the local one.
\<close>

definition sd_bad_tied :: "(string \<times> Tensor) list" where
  "sd_bad_tied =
     map (\<lambda>(n, t). if n = ''transformer.wte.weight''
                    then (n, \<lparr>shape = [1, 1], data = [7]\<rparr>)
                    else if n = ''lm_head.weight''
                    then (n, \<lparr>shape = [2, 1], data = [0, 0]\<rparr>) else (n, t))
         (exported model_tiny)"

section \<open>What the attention layer returns\<close>

lemma CausalSelfAttention_forward_c_proj:
  "CausalSelfAttention_forward a x = map (map (Linear_forward (c_proj a))) x"
  by (simp add: CausalSelfAttention_forward_def Let_def)

lemma upt_small: "[0..<2] = [0, 1]" "[0..<1] = [0]"
  by (simp_all add: upt_rec)

lemma Block_forward_cong:
  assumes "ln_1 b = ln_1 b'" "ln_2 b = ln_2 b'" "mlp b = mlp b'" "c_proj (attn b) = c_proj (attn b')"
  shows "Block_forward b = Block_forward b'"
  using assms by (simp add: Block_forward_def CausalSelfAttention_forward_c_proj fun_eq_iff)

lemma fold_Block_forward_cong:
  assumes "list_all2 (\<lambda>b b'. Block_forward b = Block_forward b') bs bs'"
  shows "fold Block_forward bs x = fold Block_forward bs' x"
  using assms by (induction bs bs' arbitrary: x rule: list_all2_induct) simp_all

text \<open>
  C1. The claim: the tensor that \<open>c_proj\<close> projects is the attention result. At the
  layer \<open>attn_example\<close> and the input \<open>x_example\<close> the source returns \<open>c_proj\<close> of its
  input \<open>x\<close>, which is \<open>[[[1], [2]]]\<close>, while \<open>c_proj\<close> of the attention result of lines
  24 to 34 is \<open>[[[1], [3/2]]]\<close>: line 35 projects \<open>x\<close> where the claim says \<open>y\<close>.
\<close>

theorem attention_projects_input_not_result:
  "CausalSelfAttention_forward attn_example x_example = [[[1], [2]]] \<and>
   map (map (Linear_forward (c_proj attn_example))) (attention_result attn_example x_example)
     = [[[1], [3 / 2]]]"
proof
  show "CausalSelfAttention_forward attn_example x_example = [[[1], [2]]]"
    by (simp add: CausalSelfAttention_forward_def attn_example_def x_example_def
          Linear_forward_def dot_def Let_def)
next
  have "attention_result attn_example x_example = [[[1], [3 / 2]]]"
    by (simp add: attention_result_def attn_example_def x_example_def size_C_def
          split_chunk_def to_heads_def from_heads_def scaled_dot_product_attention_def
          attend_def softmax_def wsum_def Linear_forward_def dot_def vadd_def upt_small Let_def)
  then show "map (map (Linear_forward (c_proj attn_example))) (attention_result attn_example x_example)
     = [[[1], [3 / 2]]]"
    by (simp add: attn_example_def Linear_forward_def dot_def)
qed

text \<open>
  C10. \<open>CausalSelfAttention.forward\<close> returns \<open>c_proj\<close> applied to every position of its
  input, whatever the attention computation gives; so two models that differ in the
  \<open>c_attn\<close> parameters only return the same result of \<open>GPT.forward\<close> (the same logits and
  loss, or the same error) on every input.
\<close>

theorem attention_ignores_c_attn:
  "CausalSelfAttention_forward a x = map (map (Linear_forward (c_proj a))) x \<and>
   (differ_only_in_c_attn g g' \<longrightarrow> GPT_forward g idx targets = GPT_forward g' idx targets)"
proof (intro conjI impI)
  show "CausalSelfAttention_forward a x = map (map (Linear_forward (c_proj a))) x"
    by (rule CausalSelfAttention_forward_c_proj)
next
  assume d: "differ_only_in_c_attn g g'"
  then have "list_all2 (\<lambda>b b'. Block_forward b = Block_forward b') (h g) (h g')"
    unfolding differ_only_in_c_attn_def
    by (auto elim!: list_all2_mono intro: Block_forward_cong)
  then have "fold Block_forward (h g) = fold Block_forward (h g')"
    by (auto simp: fun_eq_iff intro: fold_Block_forward_cong)
  moreover from d have "config g = config g'" "wte g = wte g'" "wpe g = wpe g'"
    "ln_f g = ln_f g'" "lm_head g = lm_head g'"
    by (simp_all add: differ_only_in_c_attn_def)
  ultimately show "GPT_forward g idx targets = GPT_forward g' idx targets"
    by (simp add: GPT_forward_def Let_def cong: if_cong sum.case_cong option.case_cong)
qed

theorem attention_ignores_c_attn_witness:
  "differ_only_in_c_attn gpt_example gpt_example_other_c_attn \<and>
   map (c_attn \<circ> attn) (h gpt_example) \<noteq> map (c_attn \<circ> attn) (h gpt_example_other_c_attn) \<and>
   GPT_forward gpt_example idx_example None = GPT_forward gpt_example_other_c_attn idx_example None"
proof -
  have d: "differ_only_in_c_attn gpt_example gpt_example_other_c_attn"
    by (simp add: differ_only_in_c_attn_def gpt_example_def gpt_example_other_c_attn_def
          block_example_def attn_example_def)
  have "map (c_attn \<circ> attn) (h gpt_example) \<noteq> map (c_attn \<circ> attn) (h gpt_example_other_c_attn)"
    by (simp add: gpt_example_def gpt_example_other_c_attn_def block_example_def attn_example_def)
  with d attention_ignores_c_attn [of _ _ gpt_example gpt_example_other_c_attn idx_example None]
  show ?thesis by blast
qed

section \<open>The capacity check of the forward pass\<close>

lemma Embedding_forward_error: "Embedding_forward W is = Inl e \<Longrightarrow> e = IndexError"
  by (simp add: Embedding_forward_def split: if_splits)

lemma Embedding_forward2_error: "Embedding_forward2 W rows = Inl e \<Longrightarrow> e = IndexError"
  by (simp add: Embedding_forward2_def split: if_splits)

lemma cross_entropy_error: "cross_entropy inp tgt = Inl e \<Longrightarrow> e = ValueError \<or> e = IndexError"
  by (simp add: cross_entropy_def Let_def split: if_splits)

lemma GPT_forward_too_long:
  "block_size (config g) \<le> size_T idx \<Longrightarrow>
   GPT_forward g idx targets =
     Inl (AssertionError (capacity_message (size_T idx) (block_size (config g))))"
  by (simp add: GPT_forward_def Let_def)

lemma GPT_forward_fits:
  "size_T idx < block_size (config g) \<Longrightarrow> GPT_forward g idx targets \<noteq> Inl (AssertionError msg)"
  by (auto simp: GPT_forward_def Let_def split: sum.splits option.splits
      dest: Embedding_forward_error Embedding_forward2_error cross_entropy_error)

text \<open>
  C5. \<open>GPT.forward\<close> fails with an \<open>AssertionError\<close> exactly when the sequence length
  \<open>T\<close> is at least \<open>block_size\<close>. Then the error is the result whatever the parameters,
  the token ids and the targets are (nothing is computed before the check), and its
  message prints both \<open>T\<close> and \<open>block_size\<close>. For \<open>T < block_size\<close> no assertion fails.
\<close>

theorem forward_capacity_error:
  "((\<exists>msg. GPT_forward g idx targets = Inl (AssertionError msg)) \<longleftrightarrow>
      block_size (config g) \<le> size_T idx) \<and>
   (block_size (config g) \<le> size_T idx \<longrightarrow>
      GPT_forward g idx targets =
        Inl (AssertionError (''Cannot forward sequence of length '' @ str_nat (size_T idx) @
                             '', block size is only '' @ str_nat (block_size (config g)))))"
proof (intro conjI impI iffI)
  assume "\<exists>msg. GPT_forward g idx targets = Inl (AssertionError msg)"
  then show "block_size (config g) \<le> size_T idx"
    using GPT_forward_fits [of idx g targets] by (auto simp: not_le [symmetric])
next
  assume "block_size (config g) \<le> size_T idx"
  then show "\<exists>msg. GPT_forward g idx targets = Inl (AssertionError msg)"
    by (simp add: GPT_forward_too_long)
next
  assume "block_size (config g) \<le> size_T idx"
  then show "GPT_forward g idx targets =
        Inl (AssertionError (''Cannot forward sequence of length '' @ str_nat (size_T idx) @
                             '', block size is only '' @ str_nat (block_size (config g))))"
    by (simp add: GPT_forward_too_long capacity_message_def)
qed

theorem forward_capacity_error_witness:
  "block_size (config gpt_example) \<le> size_T idx_too_long \<and>
   GPT_forward gpt_example idx_too_long None =
     Inl (AssertionError ''Cannot forward sequence of length 4, block size is only 4'') \<and>
   \<not> block_size (config gpt_example) \<le> size_T idx_example \<and>
   (\<nexists>msg. GPT_forward gpt_example idx_example None = Inl (AssertionError msg))"
  using forward_capacity_error [of gpt_example idx_too_long None]
    forward_capacity_error [of gpt_example idx_example None]
  by (simp add: gpt_example_def idx_too_long_def idx_example_def str_nat.simps)

section \<open>The block is a pre-norm residual composition\<close>

lemma map2_same: "map2 f xs (map g xs) = map (\<lambda>x. f x (g x)) xs"
  by (induction xs) simp_all

lemma tadd_map_map: "tadd x (map (map f) x) = map (map (\<lambda>v. vadd v (f v))) x"
  by (simp add: tadd_def madd_def map2_same)

lemma Block_forward_positionwise: "Block_forward b x = map (map (Block_at_position b)) x"
  by (simp add: Block_forward_def CausalSelfAttention_forward_c_proj MLP_forward_def Let_def
        tadd_map_map Block_at_position_def comp_def)

lemma fold_Block_forward_positionwise:
  "fold Block_forward bs x = map (map (fold Block_at_position bs)) x"
  by (induction bs arbitrary: x) (simp_all add: Block_forward_positionwise comp_def)

lemma length_vadd: "length (vadd u v) = min (length u) (length v)"
  by (simp add: vadd_def)

lemma length_Linear_forward: "wf_Linear n_in n_out l \<Longrightarrow> length (Linear_forward l x) = n_out"
  by (simp add: wf_Linear_def Linear_forward_def)

lemma length_LayerNorm_forward:
  "wf_LayerNorm n nrm \<Longrightarrow> length x = n \<Longrightarrow> length (LayerNorm_forward nrm x) = n"
  by (simp add: wf_LayerNorm_def LayerNorm_forward_def Let_def length_vadd)

lemma length_Block_at_position:
  "wf_Block cfg b \<Longrightarrow> length v = n_embd cfg \<Longrightarrow> length (Block_at_position b v) = n_embd cfg"
  by (simp add: wf_Block_def wf_CausalSelfAttention_def wf_MLP_def Block_at_position_def Let_def
        length_vadd length_Linear_forward [where n_in = "n_embd cfg" and n_out = "n_embd cfg"]
        length_Linear_forward [where n_in = "4 * n_embd cfg" and n_out = "n_embd cfg"])

lemma shape3_map_map:
  assumes "shape3 x B T C" and "\<And>v. length v = C \<Longrightarrow> length (f v) = D"
  shows "shape3 (map (map f) x) B T D"
  using assms by (auto simp: shape3_def list_all_iff)

text \<open>
  C9. \<open>Block.forward\<close> returns \<open>x''\<close> with \<open>x' = x + Attention(LayerNorm_1(x))\<close> and
  \<open>x'' = x' + FeedForward(LayerNorm_2(x'))\<close>: each normalization is applied to the input
  of its sub-layer, none to a residual sum. With the parameter shapes of the
  constructors, an input of shape \<open>(B, T, n_embd)\<close> gives an output of the same shape.
\<close>

theorem Block_forward_prenorm:
  "Block_forward b x =
     prenorm_residual (map (map (LayerNorm_forward (ln_1 b)))) (CausalSelfAttention_forward (attn b))
       (map (map (LayerNorm_forward (ln_2 b)))) (MLP_forward (mlp b)) x \<and>
   (wf_Block cfg b \<and> shape3 x B T (n_embd cfg) \<longrightarrow> shape3 (Block_forward b x) B T (n_embd cfg))"
proof (intro conjI impI)
  show "Block_forward b x =
     prenorm_residual (map (map (LayerNorm_forward (ln_1 b)))) (CausalSelfAttention_forward (attn b))
       (map (map (LayerNorm_forward (ln_2 b)))) (MLP_forward (mlp b)) x"
    by (simp add: Block_forward_def prenorm_residual_def)
next
  assume "wf_Block cfg b \<and> shape3 x B T (n_embd cfg)"
  then show "shape3 (Block_forward b x) B T (n_embd cfg)"
    unfolding Block_forward_positionwise
    by (auto intro: shape3_map_map length_Block_at_position)
qed


theorem Block_forward_prenorm_witness:
  "wf_Block (config gpt_example) block_example \<and> shape3 x_example 1 2 (n_embd (config gpt_example)) \<and>
   shape3 (Block_forward block_example x_example) 1 2 (n_embd (config gpt_example)) \<and>
   Block_forward block_example x_example = [[[3], [4]]]"
proof -
  have w: "wf_Block (config gpt_example) block_example"
    by (simp add: wf_Block_def wf_CausalSelfAttention_def wf_MLP_def wf_Linear_def
          wf_LayerNorm_def gpt_example_def block_example_def attn_example_def ln_example_def)
  have s: "shape3 x_example 1 2 (n_embd (config gpt_example))"
    by (simp add: shape3_def x_example_def gpt_example_def)
  have v: "Block_forward block_example x_example = [[[3], [4]]]"
    by (simp add: Block_forward_positionwise Block_at_position_def x_example_def
          block_example_def attn_example_def ln_example_def LayerNorm_forward_def
          Linear_forward_def dot_def vadd_def gelu_def Let_def)
  from w s Block_forward_prenorm [of block_example x_example "config gpt_example" 1 2]
  have "shape3 (Block_forward block_example x_example) 1 2 (n_embd (config gpt_example))"
    by blast
  with w s v show ?thesis by blast
qed

section \<open>Logits, loss and causality\<close>

lemma map2_map_map: "map2 f (map g xs) (map k ys) = map2 (\<lambda>x y. f (g x) (k y)) xs ys"
  by (auto simp: zip_map_map)

lemma map_map2: "map k (map2 f xs ys) = map2 (\<lambda>x y. k (f x y)) xs ys"
  by (simp add: case_prod_unfold comp_def)

lemma GPT_forward_logits:
  assumes "GPT_forward g idx targets = Inr (logits, loss)"
  shows "logits = map (\<lambda>row. map2 (logits_at g) [0..<size_T idx] row) (ids idx)"
  using assms
  by (auto simp: GPT_forward_def Let_def Embedding_forward_def Embedding_forward2_def
        fold_Block_forward_positionwise madd_def logits_at_def zip_map_map comp_def case_prod_unfold
        vadd_def
      split: if_splits sum.splits option.splits)

lemma take_map2: "take n (map2 f xs ys) = map2 f (take n xs) (take n ys)"
  by (simp add: take_map take_zip)

text \<open>
  C3. Two runs of \<open>GPT.forward\<close> with the same parameters, on batches of the same shape
  that agree at the positions \<open>0..t\<close> of every sequence, return logits that agree at
  the positions \<open>0..t\<close> of every sequence: tokens after \<open>t\<close> do not reach them.
\<close>

theorem forward_causal:
  assumes "GPT_forward g idx targets = Inr (logits, loss)"
    and "GPT_forward g idx' targets' = Inr (logits', loss')"
    and "size_T idx' = size_T idx"
    and "map (take (Suc t)) (ids idx') = map (take (Suc t)) (ids idx)"
  shows "map (take (Suc t)) logits' = map (take (Suc t)) logits"
proof -
  have "map (take (Suc t)) logits
        = map (\<lambda>row. map2 (logits_at g) (take (Suc t) [0..<size_T idx]) row)
            (map (take (Suc t)) (ids idx))"
    by (simp add: GPT_forward_logits [OF assms(1)] take_map2 comp_def)
  moreover have "map (take (Suc t)) logits'
        = map (\<lambda>row. map2 (logits_at g) (take (Suc t) [0..<size_T idx']) row)
            (map (take (Suc t)) (ids idx'))"
    by (simp add: GPT_forward_logits [OF assms(2)] take_map2 comp_def)
  ultimately show ?thesis using assms(3,4) by simp
qed


lemma zip_concat:
  assumes "list_all2 (\<lambda>xs ys. length xs = length ys) xss yss"
  shows "zip (concat xss) (concat yss) = concat (map2 zip xss yss)"
  using assms by (induction xss yss rule: list_all2_induct) simp_all

lemma sum_list_map_concat:
  "sum_list (map f (concat zs)) = sum_list (map (\<lambda>z. sum_list (map f z)) zs)"
  by (induction zs) simp_all

lemma sum_list_map_nth:
  fixes f :: "'a \<Rightarrow> real"
  shows "sum_list (map f xs) = (\<Sum>i<length xs. f (xs ! i))"
  by (simp add: sum_list_sum_nth atLeast0LessThan)

lemma sum_list_zip_nth:
  fixes f :: "'a \<Rightarrow> 'b \<Rightarrow> real"
  assumes "length xs = n" "length ys = n"
  shows "sum_list (map (\<lambda>(x, y). f x y) (zip xs ys)) = (\<Sum>i<n. f (xs ! i) (ys ! i))"
  using assms by (simp add: sum_list_map_nth)

lemma sum_list_zip_concat:
  fixes f :: "'a \<Rightarrow> 'b \<Rightarrow> real"
  assumes "length xss = B" "length yss = B"
    and "\<And>b. b < B \<Longrightarrow> length (xss ! b) = T \<and> length (yss ! b) = T"
  shows "sum_list (map (\<lambda>(x, y). f x y) (zip (concat xss) (concat yss)))
         = (\<Sum>b<B. \<Sum>t<T. f (xss ! b ! t) (yss ! b ! t))"
proof -
  have "list_all2 (\<lambda>xs ys. length xs = length ys) xss yss"
    using assms by (simp add: list_all2_conv_all_nth)
  then have "sum_list (map (\<lambda>(x, y). f x y) (zip (concat xss) (concat yss)))
      = sum_list (map (\<lambda>(xs, ys). sum_list (map (\<lambda>(x, y). f x y) (zip xs ys))) (zip xss yss))"
    by (simp add: zip_concat sum_list_map_concat case_prod_unfold comp_def)
  also have "\<dots> = (\<Sum>b<B. sum_list (map (\<lambda>(x, y). f x y) (zip (xss ! b) (yss ! b))))"
    using assms(1,2) by (rule sum_list_zip_nth)
  also have "\<dots> = (\<Sum>b<B. \<Sum>t<T. f (xss ! b ! t) (yss ! b ! t))"
    by (rule sum.cong) (simp_all add: assms(3) sum_list_zip_nth)
  finally show ?thesis .
qed


lemma GPT_forward_success:
  assumes "wf_GPT g" "size_T idx < block_size (config g)" "valid_ids g idx"
  shows "GPT_forward g idx None =
           Inr (map (\<lambda>row. map2 (logits_at g) [0..<size_T idx] row) (ids idx), None)"
proof -
  have "Embedding_forward (wpe g) (map int [0..<size_T idx])
          = Inr (map (\<lambda>i. wpe g ! nat i) (map int [0..<size_T idx]))"
    using assms(1,2) by (simp add: Embedding_forward_def wf_GPT_def Let_def list_all_iff)
  moreover have "Embedding_forward2 (wte g) (ids idx) = Inr (map (map (\<lambda>i. wte g ! nat i)) (ids idx))"
    using assms(1,3) by (simp add: Embedding_forward2_def wf_GPT_def valid_ids_def Let_def)
  ultimately show ?thesis
    by (simp add: GPT_forward_def Let_def assms(2) fold_Block_forward_positionwise madd_def
          logits_at_def zip_map_map comp_def case_prod_unfold vadd_def)
qed


lemma GPT_forward_Some:
  "GPT_forward g idx (Some tg) =
     (case GPT_forward g idx None of
        Inl e \<Rightarrow> Inl e
      | Inr (logits, _) \<Rightarrow>
          (case cross_entropy (concat logits) (concat (ids tg)) of
             Inl e \<Rightarrow> Inl e
           | Inr loss \<Rightarrow> Inr (logits, Some loss)))"
  by (simp add: GPT_forward_def Let_def split: sum.splits)

lemma length_concat_uniform:
  "list_all (\<lambda>r. length r = T) xss \<Longrightarrow> length (concat xss) = length xss * T"
  by (induction xss) simp_all

lemma shape3_logits:
  assumes "wf_GPT g" "wf_LongTensor idx"
  shows "shape3 (map (\<lambda>row. map2 (logits_at g) [0..<size_T idx] row) (ids idx))
           (length (ids idx)) (size_T idx) (vocab_size (config g))"
proof -
  have "wf_Linear (n_embd (config g)) (vocab_size (config g)) (lm_head g)"
    using assms(1) by (simp add: wf_GPT_def Let_def)
  then have "\<And>t i. length (logits_at g t i) = vocab_size (config g)"
    by (simp add: logits_at_def length_Linear_forward)
  then show ?thesis
    using assms(2) by (auto simp: shape3_def wf_LongTensor_def list_all_iff dest: set_zip_leftD)
qed

lemma cross_entropy_valid:
  assumes "shape3 logits B T V" "length tgt = B" "list_all (\<lambda>r. length r = T) tgt"
    and "list_all (list_all (\<lambda>c. 0 \<le> c \<and> c < int V)) tgt"
  shows "cross_entropy (concat logits) (concat tgt) = Inr (mean_cross_entropy logits tgt B T)"
proof -
  have len: "length (concat logits) = B * T" "length (concat tgt) = B * T"
    using assms(1,2,3) length_concat_uniform [of T logits] length_concat_uniform [of T tgt]
    by (auto simp: shape3_def list_all_iff)
  have rows: "\<And>row. row \<in> set (concat logits) \<Longrightarrow> length row = V"
    using assms(1) by (auto simp: shape3_def list_all_iff)
  have cls: "\<And>c. c \<in> set (concat tgt) \<Longrightarrow> 0 \<le> c \<and> c < int V"
    using assms(4) by (auto simp: list_all_iff)
  have mem: "length (fst p) = V \<and> 0 \<le> snd p \<and> snd p < int V"
    if "p \<in> set (zip (concat logits) (concat tgt))" for p
    using that rows [of "fst p"] cls [of "snd p"]
    by (metis prod.collapse set_zip_leftD set_zip_rightD)
  have ok: "list_all (\<lambda>(row, c). c = - 100 \<or> (0 \<le> c \<and> c < int (length row)))
              (zip (concat logits) (concat tgt))"
    unfolding list_all_iff using mem by fastforce
  have kept: "filter (\<lambda>(row, c). c \<noteq> - 100) (zip (concat logits) (concat tgt))
              = zip (concat logits) (concat tgt)"
    unfolding filter_id_conv using mem by fastforce
  have "sum_list (map (\<lambda>(row, c). nll row c) (zip (concat logits) (concat tgt)))
        = (\<Sum>b<B. \<Sum>t<T. nll (logits ! b ! t) (tgt ! b ! t))"
    using assms(1,2,3) by (intro sum_list_zip_concat) (auto simp: shape3_def list_all_length)
  then show ?thesis
    using len ok kept by (simp add: cross_entropy_def mean_cross_entropy_def Let_def)
qed

text \<open>
  C8. For a model with the constructors' shapes, a \<open>(B, T)\<close> batch of token ids below
  \<open>vocab_size\<close> with \<open>T < block_size\<close> and, when given, \<open>(B, T)\<close> targets below
  \<open>vocab_size\<close>: \<open>GPT.forward\<close> returns logits of shape \<open>(B, T, vocab_size)\<close>; the loss
  is there exactly when targets were given, and is then the mean over the \<open>B * T\<close>
  positions of the cross-entropy of each position (for an empty batch the library's
  mean is \<open>nan\<close>, which the reals do not have).
\<close>

theorem forward_result_contract:
  assumes "wf_GPT g" "wf_LongTensor idx" "size_T idx < block_size (config g)" "valid_ids g idx"
    and "case targets of None \<Rightarrow> True
         | Some tg \<Rightarrow> wf_LongTensor tg \<and> size_T tg = size_T idx \<and>
                      length (ids tg) = length (ids idx) \<and> valid_ids g tg"
  shows "\<exists>logits loss.
           GPT_forward g idx targets = Inr (logits, loss) \<and>
           shape3 logits (length (ids idx)) (size_T idx) (vocab_size (config g)) \<and>
           (loss = None \<longleftrightarrow> targets = None) \<and>
           (case targets of None \<Rightarrow> True
            | Some tg \<Rightarrow> 0 < length (ids idx) * size_T idx \<longrightarrow>
                        loss = Some (mean_cross_entropy logits (ids tg)
                                       (length (ids idx)) (size_T idx)))"
proof -
  let ?L = "map (\<lambda>row. map2 (logits_at g) [0..<size_T idx] row) (ids idx)"
  have run: "GPT_forward g idx None = Inr (?L, None)"
    using assms(1,3,4) by (rule GPT_forward_success)
  have shp: "shape3 ?L (length (ids idx)) (size_T idx) (vocab_size (config g))"
    using assms(1,2) by (rule shape3_logits)
  show ?thesis
  proof (cases targets)
    case None
    with run shp show ?thesis by simp
  next
    case (Some tg)
    with assms(5) have tg: "wf_LongTensor tg" "size_T tg = size_T idx"
      "length (ids tg) = length (ids idx)" "valid_ids g tg"
      by simp_all
    have "cross_entropy (concat ?L) (concat (ids tg))
          = Inr (mean_cross_entropy ?L (ids tg) (length (ids idx)) (size_T idx))"
      using shp tg by (intro cross_entropy_valid) (simp_all add: wf_LongTensor_def valid_ids_def)
    with run shp Some show ?thesis
      by (simp add: GPT_forward_Some)
  qed
qed


lemma wf_gpt_example: "wf_GPT gpt_example"
  by (simp add: wf_GPT_def wf_Block_def wf_CausalSelfAttention_def wf_MLP_def wf_Linear_def
        wf_LayerNorm_def gpt_example_def block_example_def attn_example_def ln_example_def)

lemma valid_ids_examples:
  "valid_ids gpt_example idx_example" "valid_ids gpt_example idx_perturbed"
  "valid_ids gpt_example targets_example"
  by (simp_all add: valid_ids_def gpt_example_def idx_example_def idx_perturbed_def
        targets_example_def)

theorem forward_causal_witness:
  "\<exists>l l'. GPT_forward gpt_example idx_example None = Inr (l, None) \<and>
          GPT_forward gpt_example idx_perturbed None = Inr (l', None) \<and>
          size_T idx_perturbed = size_T idx_example \<and>
          map (take (Suc 1)) (ids idx_perturbed) = map (take (Suc 1)) (ids idx_example) \<and>
          ids idx_perturbed \<noteq> ids idx_example \<and>
          map (take (Suc 1)) l' = map (take (Suc 1)) l"
proof -
  have sz: "size_T idx_example < block_size (config gpt_example)"
    "size_T idx_perturbed < block_size (config gpt_example)"
    by (simp_all add: idx_example_def idx_perturbed_def gpt_example_def)
  obtain l l' where r: "GPT_forward gpt_example idx_example None = Inr (l, None)"
    "GPT_forward gpt_example idx_perturbed None = Inr (l', None)"
    using GPT_forward_success [OF wf_gpt_example sz(1) valid_ids_examples(1)]
      GPT_forward_success [OF wf_gpt_example sz(2) valid_ids_examples(2)] by blast
  have e: "size_T idx_perturbed = size_T idx_example"
    "map (take (Suc 1)) (ids idx_perturbed) = map (take (Suc 1)) (ids idx_example)"
    "ids idx_perturbed \<noteq> ids idx_example"
    by (simp_all add: idx_example_def idx_perturbed_def)
  from forward_causal [OF r e(1,2)] r e show ?thesis by blast
qed

theorem forward_result_contract_witness:
  "wf_GPT gpt_example \<and> wf_LongTensor idx_example \<and>
   size_T idx_example < block_size (config gpt_example) \<and> valid_ids gpt_example idx_example \<and>
   wf_LongTensor targets_example \<and> size_T targets_example = size_T idx_example \<and>
   length (ids targets_example) = length (ids idx_example) \<and>
   valid_ids gpt_example targets_example \<and> 0 < length (ids idx_example) * size_T idx_example \<and>
   (\<exists>logits. GPT_forward gpt_example idx_example (Some targets_example)
        = Inr (logits, Some (mean_cross_entropy logits (ids targets_example) 2 3)) \<and>
      shape3 logits 2 3 2)"
proof -
  have a: "wf_LongTensor idx_example" "size_T idx_example < block_size (config gpt_example)"
    "wf_LongTensor targets_example" "size_T targets_example = size_T idx_example"
    "length (ids targets_example) = length (ids idx_example)"
    "0 < length (ids idx_example) * size_T idx_example"
    by (simp_all add: wf_LongTensor_def idx_example_def targets_example_def gpt_example_def)
  have n: "length (ids idx_example) = 2" "size_T idx_example = 3"
    "vocab_size (config gpt_example) = 2"
    by (simp_all add: idx_example_def gpt_example_def)
  from forward_result_contract [of gpt_example idx_example "Some targets_example",
      OF wf_gpt_example a(1,2) valid_ids_examples(1)] a valid_ids_examples(3)
  have "\<exists>logits. GPT_forward gpt_example idx_example (Some targets_example)
        = Inr (logits, Some (mean_cross_entropy logits (ids targets_example) 2 3)) \<and>
      shape3 logits 2 3 2"
    unfolding n by auto
  with a wf_gpt_example valid_ids_examples show ?thesis by blast
qed

section \<open>The initialization policy\<close>

lemma block_calls:
  "concat (map (init_weights cfg) (apply_order p (Block_init cfg))) =
    [init_normal (join (join (join p ''attn'') ''c_attn'') ''weight'') 0 0.02,
     init_zeros (join (join (join p ''attn'') ''c_attn'') ''bias''),
     init_normal (join (join (join p ''attn'') ''c_proj'') ''weight'') 0 (0.02 * (2 * real (n_layer cfg)) powr (- 0.5)),
     init_zeros (join (join (join p ''attn'') ''c_proj'') ''bias''),
     init_normal (join (join (join p ''mlp'') ''c_fc'') ''weight'') 0 0.02,
     init_zeros (join (join (join p ''mlp'') ''c_fc'') ''bias''),
     init_normal (join (join (join p ''mlp'') ''c_proj'') ''weight'') 0 (0.02 * (2 * real (n_layer cfg)) powr (- 0.5)),
     init_zeros (join (join (join p ''mlp'') ''c_proj'') ''bias'')]"
  by (simp add: Block_init_def CausalSelfAttention_init_def MLP_init_def Let_def)


lemma concat_map_concat:
  "concat (map f (concat xss)) = concat (map (\<lambda>xs. concat (map f xs)) xss)"
  by (induction xss) simp_all

text \<open>
  C7. The calls that \<open>GPT.__init__\<close> makes through \<open>_init_weights\<close>: every weight of a
  linear layer is drawn with mean \<open>0\<close> and standard deviation \<open>0.02\<close>, except the weights
  of \<open>attn.c_proj\<close> and \<open>mlp.c_proj\<close> of every block, whose standard deviation is
  \<open>0.02 * (2 * n_layer) ** (-0.5)\<close>; every bias of a linear layer is set to zero; the two
  embedding tables are drawn with mean \<open>0\<close> and standard deviation \<open>0.02\<close>.
\<close>

theorem init_policy:
  "init_calls cfg =
     [init_normal ''transformer.wte.weight'' 0 0.02,
      init_normal ''transformer.wpe.weight'' 0 0.02] @
     concat (map (\<lambda>i.
       [init_normal (''transformer.h.'' @ str_nat i @ ''.attn.c_attn.weight'') 0 0.02,
        init_zeros (''transformer.h.'' @ str_nat i @ ''.attn.c_attn.bias''),
        init_normal (''transformer.h.'' @ str_nat i @ ''.attn.c_proj.weight'') 0
          (0.02 * (2 * real (n_layer cfg)) powr (- 0.5)),
        init_zeros (''transformer.h.'' @ str_nat i @ ''.attn.c_proj.bias''),
        init_normal (''transformer.h.'' @ str_nat i @ ''.mlp.c_fc.weight'') 0 0.02,
        init_zeros (''transformer.h.'' @ str_nat i @ ''.mlp.c_fc.bias''),
        init_normal (''transformer.h.'' @ str_nat i @ ''.mlp.c_proj.weight'') 0
          (0.02 * (2 * real (n_layer cfg)) powr (- 0.5)),
        init_zeros (''transformer.h.'' @ str_nat i @ ''.mlp.c_proj.bias'')]) [0..<n_layer cfg]) @
     [init_normal ''lm_head.weight'' 0 0.02, init_zeros ''lm_head.bias'']"
proof -
  let ?h = "Container (map (\<lambda>i. (str_nat i, Block_init cfg)) [0..<n_layer cfg])"
  let ?tr = "Container [(''wte'', Embedding_m (vocab_size cfg) (n_embd cfg)),
            (''wpe'', Embedding_m (block_size cfg) (n_embd cfg)), (''h'', ?h),
            (''ln_f'', LayerNorm_m (n_embd cfg))]"
  have blocks: "concat (map (init_weights cfg) (apply_order ''transformer.h'' ?h)) =
     concat (map (\<lambda>i. concat (map (init_weights cfg)
               (apply_order (''transformer.h.'' @ str_nat i) (Block_init cfg)))) [0..<n_layer cfg])"
    by (simp add: concat_map_concat comp_def join_def)
  have transformer: "concat (map (init_weights cfg) (apply_order ''transformer'' ?tr)) =
     [init_normal ''transformer.wte.weight'' 0 0.02,
      init_normal ''transformer.wpe.weight'' 0 0.02] @
     concat (map (init_weights cfg) (apply_order ''transformer.h'' ?h))"
    by (simp add: join_def)
  have head: "concat (map (init_weights cfg)
       (apply_order ''lm_head'' (Linear_m (n_embd cfg) (vocab_size cfg) False))) =
     [init_normal ''lm_head.weight'' 0 0.02, init_zeros ''lm_head.bias'']"
    by (simp add: join_def)
  have "init_calls cfg =
     concat (map (init_weights cfg) (apply_order ''transformer'' ?tr)) @
     concat (map (init_weights cfg)
       (apply_order ''lm_head'' (Linear_m (n_embd cfg) (vocab_size cfg) False)))"
    by (simp add: init_calls_def GPT_modules_def join_def)
  also have "\<dots> =
     [init_normal ''transformer.wte.weight'' 0 0.02,
      init_normal ''transformer.wpe.weight'' 0 0.02] @
     concat (map (\<lambda>i. concat (map (init_weights cfg)
               (apply_order (''transformer.h.'' @ str_nat i) (Block_init cfg)))) [0..<n_layer cfg]) @
     [init_normal ''lm_head.weight'' 0 0.02, init_zeros ''lm_head.bias'']"
    by (simp only: transformer blocks head append_assoc)
  finally show ?thesis
    by (simp add: block_calls join_def)
qed

section \<open>Weight tying\<close>

lemma params_update_in_place [simp]: "params (update_in_place n f m) = params m"
  by (simp add: update_in_place_def split: option.splits)

lemma length_heap_update_in_place [simp]:
  "length (heap (update_in_place n f m)) = length (heap m)"
  by (simp add: update_in_place_def split: option.splits)

lemma params_run_init_call [simp]: "params (run_init_call normal c m) = params m"
  by (cases "(normal, c, m)" rule: run_init_call.cases) simp_all

lemma length_heap_run_init_call [simp]:
  "length (heap (run_init_call normal c m)) = length (heap m)"
  by (cases "(normal, c, m)" rule: run_init_call.cases) simp_all

lemma fold_run_init_call [simp]:
  "params (fold (run_init_call normal) cs m) = params m"
  "length (heap (fold (run_init_call normal) cs m)) = length (heap m)"
  by (induction cs arbitrary: m) simp_all

lemma in_place_updates_keeps [simp]:
  "params (in_place_updates us m) = params m"
  "length (heap (in_place_updates us m)) = length (heap m)"
  unfolding in_place_updates_def
  by (induction us arbitrary: m) (simp_all add: case_prod_unfold)

lemma map_of_rebind_other:
  "k \<noteq> n \<Longrightarrow> map_of (map (\<lambda>(k, b). if k = n then (k, a) else (k, b)) ps) k = map_of ps k"
  by (induction ps) (simp_all add: case_prod_unfold)

lemma map_of_rebind_same:
  "n \<in> fst ` set ps \<Longrightarrow> map_of (map (\<lambda>(k, b). if k = n then (k, a) else (k, b)) ps) n = Some a"
  by (induction ps) (auto simp: case_prod_unfold)

lemma fst_set_zip_upt: "fst ` set (zip ks [0..<length ks]) = set ks"
proof -
  have "map fst (zip ks [0..<length ks]) = ks" by (simp add: map_fst_zip)
  then have "set (map fst (zip ks [0..<length ks])) = set ks" by simp
  then show ?thesis by (simp only: set_map)
qed

lemma length_heap_rebind [simp]: "heap (rebind n a m) = heap m"
  by (simp add: rebind_def)

lemma map_of_zip_upt:
  assumes "k \<in> set ks"
  shows "\<exists>a < length ks. map_of (zip ks [0..<length ks]) k = Some a"
proof -
  from assms obtain a where a: "map_of (zip ks [0..<length ks]) k = Some a"
    using map_of_zip_is_Some [of ks "[0..<length ks]" k] by auto
  then have "(k, a) \<in> set (zip ks [0..<length ks])" by (rule map_of_SomeD)
  then have "a \<in> set [0..<length ks]" by (rule set_zip_rightD)
  with a show ?thesis by auto
qed

lemma GPT_parameter_names:
  "''transformer.wte.weight'' \<in> fst ` set (construct_parameters reset [] (GPT_modules cfg))"
  "''lm_head.weight'' \<in> fst ` set (construct_parameters reset [] (GPT_modules cfg))"
  by (simp_all add: GPT_modules_def join_def)

lemma tensor_of_update_in_place:
  assumes "map_of (params m) n = Some a" "map_of (params m) k = Some a" "a < length (heap m)"
  shows "tensor_of (update_in_place n f m) k = Some (f (heap m ! a))"
  using assms by (simp add: tensor_of_def update_in_place_def)

text \<open>
  C4. In a constructed model the names \<open>transformer.wte.weight\<close> and \<open>lm_head.weight\<close>
  are bound to one and the same tensor: an in-place update made through either name is
  what the other name reads, and after any sequence of in-place updates both names
  still read the one tensor.
\<close>

theorem weight_tying:
  assumes "GPT_init cfg reset normal = Inr m"
  shows "\<exists>a. map_of (params m) ''transformer.wte.weight'' = Some a \<and>
             map_of (params m) ''lm_head.weight'' = Some a \<and> a < length (heap m) \<and>
             (\<forall>f. tensor_of (update_in_place ''transformer.wte.weight'' f m) ''lm_head.weight''
                    = Some (f (heap m ! a)) \<and>
                  tensor_of (update_in_place ''lm_head.weight'' f m) ''transformer.wte.weight''
                    = Some (f (heap m ! a))) \<and>
             (\<forall>us. tensor_of (in_place_updates us m) ''transformer.wte.weight''
                      = Some (heap (in_place_updates us m) ! a) \<and>
                   tensor_of (in_place_updates us m) ''lm_head.weight''
                      = Some (heap (in_place_updates us m) ! a))"
proof -
  let ?ts = "construct_parameters reset [] (GPT_modules cfg)"
  let ?m0 = "\<lparr>params = zip (map fst ?ts) [0..<length ?ts], heap = map snd ?ts\<rparr>"
  obtain a where a: "a < length ?ts" "map_of (params ?m0) ''lm_head.weight'' = Some a"
    using map_of_zip_upt [of "''lm_head.weight''" "map fst ?ts"] GPT_parameter_names(2) [of reset cfg]
    by auto
  let ?m1 = "rebind ''transformer.wte.weight'' a ?m0"
  have m: "m = fold (run_init_call normal) (enumerate 0 (init_calls cfg)) ?m1"
    using assms a(2) by (simp add: GPT_init_def Let_def split: if_splits)
  have dom: "''transformer.wte.weight'' \<in> fst ` set (params ?m0)"
    using GPT_parameter_names(1) [of reset cfg] fst_set_zip_upt [of "map fst ?ts"] by simp
  have p: "map_of (params m) ''transformer.wte.weight'' = Some a"
    "map_of (params m) ''lm_head.weight'' = Some a"
    using a(2) dom by (simp_all add: m rebind_def map_of_rebind_other map_of_rebind_same)
  have l: "a < length (heap m)"
    using a(1) by (simp add: m)
  have u: "tensor_of (update_in_place ''transformer.wte.weight'' f m) ''lm_head.weight''
             = Some (f (heap m ! a))"
    "tensor_of (update_in_place ''lm_head.weight'' f m) ''transformer.wte.weight''
             = Some (f (heap m ! a))" for f
    using p l by (simp_all add: tensor_of_update_in_place)
  have v: "tensor_of (in_place_updates us m) ''transformer.wte.weight''
             = Some (heap (in_place_updates us m) ! a)"
    "tensor_of (in_place_updates us m) ''lm_head.weight''
             = Some (heap (in_place_updates us m) ! a)" for us
    using p l by (simp_all add: tensor_of_def)
  from p l u v show ?thesis by blast
qed

lemma GPT_init_tiny: "GPT_init cfg_tiny sample_reset sample_normal = Inr model_tiny"
  by code_simp

theorem weight_tying_witness:
  "GPT_init cfg_tiny sample_reset sample_normal = Inr model_tiny \<and>
   map_of (params model_tiny) ''transformer.wte.weight'' = Some 16 \<and>
   map_of (params model_tiny) ''lm_head.weight'' = Some 16 \<and>
   tensor_of (update_in_place ''lm_head.weight'' (\<lambda>t. t\<lparr>data := [9]\<rparr>) model_tiny)
     ''transformer.wte.weight'' = Some \<lparr>shape = [1, 1], data = [9]\<rparr>"
proof -
  have p: "map_of (params model_tiny) ''transformer.wte.weight'' = Some 16"
    "map_of (params model_tiny) ''lm_head.weight'' = Some 16"
    by (simp_all add: model_tiny_def)
  have h: "heap model_tiny ! 16 = \<lparr>shape = [1, 1], data = [10]\<rparr>"
    by (simp add: model_tiny_def)
  from weight_tying [OF GPT_init_tiny] p h
  have "tensor_of (update_in_place ''lm_head.weight'' (\<lambda>t. t\<lparr>data := [9]\<rparr>) model_tiny)
     ''transformer.wte.weight'' = Some \<lparr>shape = [1, 1], data = [9]\<rparr>"
    by auto
  with GPT_init_tiny p show ?thesis by simp
qed

section \<open>Which parameters the import transposes\<close>

lemma suffix_append_tail:
  assumes "length w \<le> length s"
  shows "suffix w (p @ s) = suffix w s"
proof
  assume "suffix w (p @ s)"
  then obtain zs where zs: "p @ s = zs @ w" by (auto simp: suffix_def)
  then have "length p + length s = length zs + length w"
    by (metis length_append)
  with assms have "length p \<le> length zs" by simp
  with zs have "zs = p @ drop (length p) zs"
    by (metis append_eq_append_conv_if append_take_drop_id)
  with zs have "s = drop (length p) zs @ w"
    by (metis append_assoc same_append_eq)
  then show "suffix w s" by (simp add: suffix_def)
next
  assume "suffix w s"
  then show "suffix w (p @ s)" by (simp add: suffix_appendI)
qed

lemma not_suffix_tail:
  assumes "length s \<le> length w" "drop (length w - length s) w \<noteq> s"
  shows "\<not> suffix w (p @ s)"
proof
  assume "suffix w (p @ s)"
  then obtain zs where zs: "p @ s = zs @ w" by (auto simp: suffix_def)
  have "drop (length (p @ s) - length s) (p @ s) = s" by simp
  with zs have "drop (length (zs @ w) - length s) (zs @ w) = s" by simp
  with assms(1) have "drop (length w - length s) w = s" by simp
  with assms(2) show False by simp
qed


lemma GPT_names:
  "map fst (construct_parameters reset [] (GPT_modules cfg)) =
     take 2 fixed_names @
     concat (map (\<lambda>i. map (\<lambda>s. block_prefix i @ s) block_tails) [0..<n_layer cfg]) @
     drop 2 fixed_names"
  by (simp add: GPT_modules_def Block_init_def CausalSelfAttention_init_def MLP_init_def
        join_def map_concat comp_def block_prefix_def block_tails_def fixed_names_def)



lemma is_transposed_role_tails:
  "is_transposed (p @ ''.attn.c_attn.weight'')" "is_transposed (p @ ''.attn.c_proj.weight'')"
  "is_transposed (p @ ''.mlp.c_fc.weight'')" "is_transposed (p @ ''.mlp.c_proj.weight'')"
  by (simp_all add: is_transposed_def endswith_def transposed_def suffix_append_tail
        suffix_to_prefix)

lemma not_is_transposed_tails:
  "\<not> is_transposed (p @ ''.ln_1.weight'')" "\<not> is_transposed (p @ ''.ln_1.bias'')"
  "\<not> is_transposed (p @ ''.attn.c_attn.bias'')" "\<not> is_transposed (p @ ''.attn.c_proj.bias'')"
  "\<not> is_transposed (p @ ''.ln_2.weight'')" "\<not> is_transposed (p @ ''.ln_2.bias'')"
  "\<not> is_transposed (p @ ''.mlp.c_fc.bias'')" "\<not> is_transposed (p @ ''.mlp.c_proj.bias'')"
  by (simp_all add: is_transposed_def endswith_def transposed_def not_suffix_tail
        suffix_append_tail suffix_to_prefix)

lemma not_is_transposed_fixed_names:
  "\<not> is_transposed ''transformer.wte.weight''" "\<not> is_transposed ''transformer.wpe.weight''"
  "\<not> is_transposed ''transformer.ln_f.weight''" "\<not> is_transposed ''transformer.ln_f.bias''"
  "\<not> is_transposed ''lm_head.weight''" "\<not> is_transposed ''lm_head.bias''"
  by (simp_all add: is_transposed_def endswith_def transposed_def suffix_to_prefix)


lemma is_transposed_tail:
  assumes "s \<in> set block_tails"
  shows "is_transposed (p @ s) \<longleftrightarrow> s \<in> set role_tails"
proof -
  from assms have "s = ''.ln_1.weight'' \<or> s = ''.ln_1.bias'' \<or> s = ''.attn.c_attn.weight'' \<or>
      s = ''.attn.c_attn.bias'' \<or> s = ''.attn.c_proj.weight'' \<or> s = ''.attn.c_proj.bias'' \<or>
      s = ''.ln_2.weight'' \<or> s = ''.ln_2.bias'' \<or> s = ''.mlp.c_fc.weight'' \<or>
      s = ''.mlp.c_fc.bias'' \<or> s = ''.mlp.c_proj.weight'' \<or> s = ''.mlp.c_proj.bias''"
    by (simp add: block_tails_def)
  then show ?thesis
    by (elim disjE)
       (simp_all only: is_transposed_role_tails not_is_transposed_tails role_tails_def, simp_all)
qed


lemma not_is_transposed_fixed:
  assumes "k \<in> set fixed_names"
  shows "\<not> is_transposed k"
proof -
  from assms have "k = ''transformer.wte.weight'' \<or> k = ''transformer.wpe.weight'' \<or>
      k = ''transformer.ln_f.weight'' \<or> k = ''transformer.ln_f.bias'' \<or>
      k = ''lm_head.weight'' \<or> k = ''lm_head.bias''"
    by (simp add: fixed_names_def)
  then show ?thesis
    by (elim disjE) (simp_all only: not_is_transposed_fixed_names, simp_all)
qed

lemma role_tails_subset:
  assumes "s \<in> set role_tails"
  shows "s \<in> set block_tails"
proof -
  from assms have "s = ''.attn.c_attn.weight'' \<or> s = ''.attn.c_proj.weight'' \<or>
      s = ''.mlp.c_fc.weight'' \<or> s = ''.mlp.c_proj.weight''"
    by (simp add: role_tails_def)
  then show ?thesis
    by (elim disjE) (simp_all add: block_tails_def)
qed

lemma transposed_roles_alt:
  "transposed_roles cfg =
     concat (map (\<lambda>i. map (\<lambda>s. block_prefix i @ s) role_tails) [0..<n_layer cfg])"
  by (simp add: transposed_roles_def role_tails_def)

lemma in_transposed_roles:
  "k \<in> set (transposed_roles cfg) \<longleftrightarrow>
     (\<exists>i < n_layer cfg. \<exists>s \<in> set role_tails. k = block_prefix i @ s)"
  unfolding transposed_roles_alt by auto

lemma is_transposed_GPT:
  assumes "k \<in> fst ` set (construct_parameters reset [] (GPT_modules cfg))"
  shows "is_transposed k \<longleftrightarrow> k \<in> set (transposed_roles cfg)"
proof -
  from assms have "k \<in> set (map fst (construct_parameters reset [] (GPT_modules cfg)))"
    by simp
  then have "k \<in> set (take 2 fixed_names) \<or>
      k \<in> set (concat (map (\<lambda>i. map (\<lambda>s. block_prefix i @ s) block_tails) [0..<n_layer cfg])) \<or>
      k \<in> set (drop 2 fixed_names)"
    unfolding GPT_names by (simp only: set_append Un_iff)
  then consider (fixed) "k \<in> set fixed_names"
    | (block) i s where "i < n_layer cfg" "s \<in> set block_tails" "k = block_prefix i @ s"
    by (auto dest: in_set_takeD in_set_dropD)
  then show ?thesis
  proof cases
    case fixed
    then have "\<not> is_transposed k" by (rule not_is_transposed_fixed)
    moreover have "k \<notin> set (transposed_roles cfg)"
    proof
      assume "k \<in> set (transposed_roles cfg)"
      then obtain i s where "s \<in> set role_tails" "k = block_prefix i @ s"
        unfolding in_transposed_roles by auto
      then have "is_transposed k"
        using is_transposed_tail [of s "block_prefix i"] role_tails_subset by simp
      with \<open>\<not> is_transposed k\<close> show False by simp
    qed
    ultimately show ?thesis by simp
  next
    case block
    have "is_transposed k \<longleftrightarrow> s \<in> set role_tails"
      using block(2,3) is_transposed_tail [of s "block_prefix i"] by simp
    moreover have "k \<in> set (transposed_roles cfg) \<longleftrightarrow> s \<in> set role_tails"
    proof
      assume "k \<in> set (transposed_roles cfg)"
      then obtain j s' where "s' \<in> set role_tails" "k = block_prefix j @ s'"
        unfolding in_transposed_roles by auto
      then have "is_transposed k"
        using is_transposed_tail [of s' "block_prefix j"] role_tails_subset by simp
      then show "s \<in> set role_tails"
        using block(2,3) is_transposed_tail [of s "block_prefix i"] by simp
    next
      assume "s \<in> set role_tails"
      with block(1,3) show "k \<in> set (transposed_roles cfg)"
        unfolding in_transposed_roles by auto
    qed
    ultimately show ?thesis by simp
  qed
qed

section \<open>The copies of the import loop\<close>

lemma params_tensor_copy [simp]: "params (tensor_copy k t m) = params m"
  by (simp add: tensor_copy_def)

lemma length_heap_tensor_copy [simp]: "length (heap (tensor_copy k t m)) = length (heap m)"
  by (simp add: tensor_copy_def)

lemma heap_tensor_copy:
  "heap (tensor_copy k t m) ! a =
     (if map_of (params m) k = Some a \<and> a < length (heap m)
      then (heap m ! a)\<lparr>data := data t\<rparr> else heap m ! a)"
proof (cases "map_of (params m) k")
  case None
  then show ?thesis by (simp add: tensor_copy_def update_in_place_def)
next
  case (Some b)
  show ?thesis
  proof (cases "b = a")
    case True
    with Some show ?thesis
      by (cases "a < length (heap m)")
         (simp_all add: tensor_copy_def update_in_place_def list_update_beyond)
  next
    case False
    with Some show ?thesis by (simp add: tensor_copy_def update_in_place_def)
  qed
qed

lemma shape_heap_tensor_copy [simp]:
  "shape (heap (tensor_copy k t m) ! a) = shape (heap m ! a)"
  by (simp add: heap_tensor_copy)

lemma params_copies [simp]: "params (copies sd_hf ks m) = params m"
  unfolding copies_def by (induction ks arbitrary: m) simp_all

lemma length_heap_copies [simp]: "length (heap (copies sd_hf ks m)) = length (heap m)"
  unfolding copies_def by (induction ks arbitrary: m) simp_all

lemma shape_heap_copies [simp]: "shape (heap (copies sd_hf ks m) ! a) = shape (heap m ! a)"
  unfolding copies_def by (induction ks arbitrary: m) simp_all

lemma copies_append: "copies sd_hf (ks @ ks') m = copies sd_hf ks' (copies sd_hf ks m)"
  by (simp add: copies_def)

lemma copies_Cons: "copies sd_hf (k # ks) m = copies sd_hf ks (tensor_copy k (copied_value sd_hf k) m)"
  by (simp add: copies_def)

lemma heap_copies_untouched:
  assumes "\<forall>j\<in>set ks. map_of (params m) j \<noteq> Some a"
  shows "heap (copies sd_hf ks m) ! a = heap m ! a"
  using assms
  by (induction ks arbitrary: m) (simp_all add: copies_def heap_tensor_copy)

lemma heap_copies_last:
  assumes "map_of (params m) j = Some a" "a < length (heap m)"
    and "\<forall>i\<in>set ks2. map_of (params m) i \<noteq> Some a"
  shows "heap (copies sd_hf (ks1 @ j # ks2) m) ! a = (heap m ! a)\<lparr>data := data (copied_value sd_hf j)\<rparr>"
proof -
  let ?m1 = "copies sd_hf ks1 m"
  let ?m2 = "tensor_copy j (copied_value sd_hf j) ?m1"
  have "heap (copies sd_hf (ks1 @ j # ks2) m) ! a = heap (copies sd_hf ks2 ?m2) ! a"
    by (simp add: copies_append copies_Cons)
  also have "\<dots> = heap ?m2 ! a"
    using assms(3) by (intro heap_copies_untouched) simp
  also have "\<dots> = (heap ?m1 ! a)\<lparr>data := data (copied_value sd_hf j)\<rparr>"
    using assms(1,2) by (simp add: heap_tensor_copy)
  also have "\<dots> = (heap m ! a)\<lparr>data := data (copied_value sd_hf j)\<rparr>"
  proof -
    have "shape (heap ?m1 ! a) = shape (heap m ! a)" by simp
    then show ?thesis by (intro Tensor.equality) simp_all
  qed
  finally show ?thesis .
qed

lemma tensor_of_shape_copies:
  "map_option shape (tensor_of (copies sd_hf ks m) k) = map_option shape (tensor_of m k)"
  by (simp add: tensor_of_def split: option.splits)

lemma copy_loop_append:
  "copy_loop sd_hf (ks @ ks') m =
     (case copy_loop sd_hf ks m of
        Raised e m' \<Rightarrow> Raised e m'
      | Returned m' \<Rightarrow> copy_loop sd_hf ks' m')"
  by (induction ks arbitrary: m) (simp_all split: sum.splits)

lemma copy_param_Inr:
  assumes "copy_param sd_hf k m = Inr m'"
  shows "m' = tensor_copy k (copied_value sd_hf k) m"
    and "\<exists>src dst. map_of sd_hf k = Some src \<and> tensor_of m k = Some dst \<and>
           (if is_transposed k
            then rev (shape src) = shape dst \<and> tensor_t src = Inr (copied_value sd_hf k)
            else shape src = shape dst \<and> copied_value sd_hf k = src)"
  using assms
  by (auto simp: copy_param_def copied_value_def split: option.splits if_splits sum.splits)

lemma copy_loop_Returned:
  assumes "copy_loop sd_hf ks m = Returned m'"
  shows "m' = copies sd_hf ks m"
  using assms
proof (induction ks arbitrary: m)
  case Nil
  then show ?case by (simp add: copies_def)
next
  case (Cons k ks)
  then obtain m1 where m1: "copy_param sd_hf k m = Inr m1" "copy_loop sd_hf ks m1 = Returned m'"
    by (auto split: sum.splits)
  from copy_param_Inr(1) [OF m1(1)] Cons.IH [OF m1(2)] show ?case
    by (simp add: copies_Cons)
qed

lemma copy_loop_Returned_prefix:
  assumes "copy_loop sd_hf (ks1 @ k # ks2) m = Returned m'"
  shows "copy_param sd_hf k (copies sd_hf ks1 m) = Inr (copies sd_hf (ks1 @ [k]) m)"
proof -
  from assms obtain m1 where m1: "copy_loop sd_hf ks1 m = Returned m1"
    "copy_loop sd_hf (k # ks2) m1 = Returned m'"
    by (auto simp: copy_loop_append split: import_result.splits)
  from m1(2) obtain m2 where m2: "copy_param sd_hf k m1 = Inr m2"
    by (auto split: sum.splits)
  from copy_loop_Returned [OF m1(1)] m2 copy_param_Inr(1) [OF m2] show ?thesis
    by (simp add: copies_append copies_Cons copies_def)
qed

section \<open>The names, addresses and shapes of a constructed model\<close>

lemma shape_update_in_place_data:
  assumes "\<And>t. shape (f t) = shape t"
  shows "shape (heap (update_in_place n f m) ! a) = shape (heap m ! a)"
proof (cases "map_of (params m) n")
  case None
  then show ?thesis by (simp add: update_in_place_def)
next
  case (Some b)
  show ?thesis
  proof (cases "b = a")
    case True
    with Some assms show ?thesis
      by (cases "a < length (heap m)") (simp_all add: update_in_place_def list_update_beyond)
  next
    case False
    with Some show ?thesis by (simp add: update_in_place_def)
  qed
qed

lemma shape_run_init_call [simp]:
  "shape (heap (run_init_call normal c m) ! a) = shape (heap m ! a)"
  by (cases "(normal, c, m)" rule: run_init_call.cases) (simp_all add: shape_update_in_place_data)

lemma shape_fold_run_init_call [simp]:
  "shape (heap (fold (run_init_call normal) cs m) ! a) = shape (heap m ! a)"
  by (induction cs arbitrary: m) simp_all

lemma construct_parameters_dims:
  "(k, t) \<in> set (construct_parameters reset p md) \<Longrightarrow> length (shape t) \<le> 2"
  by (induction reset p md arbitrary: k t rule: construct_parameters.induct) fastforce+

lemma map_fst_rebind [simp]: "map fst (params (rebind n a m)) = map fst (params m)"
  by (simp add: rebind_def comp_def case_prod_unfold if_distrib)

lemma addresses_rebind:
  assumes "\<forall>b\<in>snd ` set (params m). b < N" "a < N"
  shows "\<forall>b\<in>snd ` set (params (rebind n a m)). b < N"
  using assms by (auto simp: rebind_def split: if_splits)

lemma GPT_init_structure:
  assumes "GPT_init cfg reset normal = Inr m"
  shows "map fst (params m) = map fst (construct_parameters reset [] (GPT_modules cfg))"
    and "\<forall>b\<in>snd ` set (params m). b < length (heap m)"
    and "\<forall>a<length (heap m). length (shape (heap m ! a)) \<le> 2"
proof -
  let ?ts = "construct_parameters reset [] (GPT_modules cfg)"
  let ?m0 = "\<lparr>params = zip (map fst ?ts) [0..<length ?ts], heap = map snd ?ts\<rparr>"
  obtain a where a: "a < length ?ts" "map_of (params ?m0) ''lm_head.weight'' = Some a"
    using map_of_zip_upt [of "''lm_head.weight''" "map fst ?ts"] GPT_parameter_names(2) [of reset cfg]
    by auto
  let ?m1 = "rebind ''transformer.wte.weight'' a ?m0"
  have m: "m = fold (run_init_call normal) (enumerate 0 (init_calls cfg)) ?m1"
    using assms a(2) by (simp add: GPT_init_def Let_def split: if_splits)
  show "map fst (params m) = map fst ?ts"
    by (simp add: m map_fst_zip)
  have "\<forall>b\<in>snd ` set (params ?m0). b < length ?ts"
    by (auto dest: set_zip_rightD)
  then have "\<forall>b\<in>snd ` set (params ?m1). b < length ?ts"
    using a(1) by (rule addresses_rebind)
  then show "\<forall>b\<in>snd ` set (params m). b < length (heap m)"
    by (simp add: m)
  show "\<forall>a<length (heap m). length (shape (heap m ! a)) \<le> 2"
  proof (intro allI impI)
    fix b assume "b < length (heap m)"
    then have b: "b < length ?ts" by (simp add: m)
    then have "?ts ! b \<in> set ?ts" by simp
    then have "length (shape (snd (?ts ! b))) \<le> 2"
      using construct_parameters_dims [of "fst (?ts ! b)" "snd (?ts ! b)" reset "[]" "GPT_modules cfg"]
      by simp
    with b show "length (shape (heap m ! b)) \<le> 2" by (simp add: m)
  qed
qed

lemma not_buffer_tails:
  "\<not> endswith (p @ ''.ln_1.weight'') ''.attn.bias''"
  "\<not> endswith (p @ ''.ln_1.bias'') ''.attn.bias''"
  "\<not> endswith (p @ ''.attn.c_attn.weight'') ''.attn.bias''"
  "\<not> endswith (p @ ''.attn.c_attn.bias'') ''.attn.bias''"
  "\<not> endswith (p @ ''.attn.c_proj.weight'') ''.attn.bias''"
  "\<not> endswith (p @ ''.attn.c_proj.bias'') ''.attn.bias''"
  "\<not> endswith (p @ ''.ln_2.weight'') ''.attn.bias''"
  "\<not> endswith (p @ ''.ln_2.bias'') ''.attn.bias''"
  "\<not> endswith (p @ ''.mlp.c_fc.weight'') ''.attn.bias''"
  "\<not> endswith (p @ ''.mlp.c_fc.bias'') ''.attn.bias''"
  "\<not> endswith (p @ ''.mlp.c_proj.weight'') ''.attn.bias''"
  "\<not> endswith (p @ ''.mlp.c_proj.bias'') ''.attn.bias''"
  by (simp_all add: endswith_def not_suffix_tail suffix_append_tail suffix_to_prefix)

lemma not_masked_buffer_tails:
  "\<not> endswith (p @ ''.ln_1.weight'') ''.attn.masked_bias''"
  "\<not> endswith (p @ ''.ln_1.bias'') ''.attn.masked_bias''"
  "\<not> endswith (p @ ''.attn.c_attn.weight'') ''.attn.masked_bias''"
  "\<not> endswith (p @ ''.attn.c_attn.bias'') ''.attn.masked_bias''"
  "\<not> endswith (p @ ''.attn.c_proj.weight'') ''.attn.masked_bias''"
  "\<not> endswith (p @ ''.attn.c_proj.bias'') ''.attn.masked_bias''"
  "\<not> endswith (p @ ''.ln_2.weight'') ''.attn.masked_bias''"
  "\<not> endswith (p @ ''.ln_2.bias'') ''.attn.masked_bias''"
  "\<not> endswith (p @ ''.mlp.c_fc.weight'') ''.attn.masked_bias''"
  "\<not> endswith (p @ ''.mlp.c_fc.bias'') ''.attn.masked_bias''"
  "\<not> endswith (p @ ''.mlp.c_proj.weight'') ''.attn.masked_bias''"
  "\<not> endswith (p @ ''.mlp.c_proj.bias'') ''.attn.masked_bias''"
  by (simp_all add: endswith_def not_suffix_tail suffix_append_tail suffix_to_prefix)

lemma not_buffer_fixed_names:
  "\<not> endswith ''transformer.wte.weight'' ''.attn.bias''"
  "\<not> endswith ''transformer.wpe.weight'' ''.attn.bias''"
  "\<not> endswith ''transformer.ln_f.weight'' ''.attn.bias''"
  "\<not> endswith ''transformer.ln_f.bias'' ''.attn.bias''"
  "\<not> endswith ''lm_head.weight'' ''.attn.bias''"
  "\<not> endswith ''lm_head.bias'' ''.attn.bias''"
  "\<not> endswith ''transformer.wte.weight'' ''.attn.masked_bias''"
  "\<not> endswith ''transformer.wpe.weight'' ''.attn.masked_bias''"
  "\<not> endswith ''transformer.ln_f.weight'' ''.attn.masked_bias''"
  "\<not> endswith ''transformer.ln_f.bias'' ''.attn.masked_bias''"
  "\<not> endswith ''lm_head.weight'' ''.attn.masked_bias''"
  "\<not> endswith ''lm_head.bias'' ''.attn.masked_bias''"
  by (simp_all add: endswith_def suffix_to_prefix)

lemma not_buffer_tail:
  assumes "s \<in> set block_tails"
  shows "\<not> endswith (p @ s) ''.attn.bias'' \<and> \<not> endswith (p @ s) ''.attn.masked_bias''"
proof -
  from assms have "s = ''.ln_1.weight'' \<or> s = ''.ln_1.bias'' \<or> s = ''.attn.c_attn.weight'' \<or>
      s = ''.attn.c_attn.bias'' \<or> s = ''.attn.c_proj.weight'' \<or> s = ''.attn.c_proj.bias'' \<or>
      s = ''.ln_2.weight'' \<or> s = ''.ln_2.bias'' \<or> s = ''.mlp.c_fc.weight'' \<or>
      s = ''.mlp.c_fc.bias'' \<or> s = ''.mlp.c_proj.weight'' \<or> s = ''.mlp.c_proj.bias''"
    by (simp add: block_tails_def)
  then show ?thesis
    by (elim disjE) (simp_all only: not_buffer_tails not_masked_buffer_tails, simp_all)
qed

lemma not_buffer_fixed:
  assumes "k \<in> set fixed_names"
  shows "\<not> endswith k ''.attn.bias'' \<and> \<not> endswith k ''.attn.masked_bias''"
proof -
  from assms have "k = ''transformer.wte.weight'' \<or> k = ''transformer.wpe.weight'' \<or>
      k = ''transformer.ln_f.weight'' \<or> k = ''transformer.ln_f.bias'' \<or>
      k = ''lm_head.weight'' \<or> k = ''lm_head.bias''"
    by (simp add: fixed_names_def)
  then show ?thesis
    by (elim disjE) (simp_all only: not_buffer_fixed_names, simp_all)
qed

lemma GPT_names_cases:
  assumes "k \<in> set (map fst (construct_parameters reset [] (GPT_modules cfg)))"
  obtains (fixed) "k \<in> set fixed_names"
    | (block) i s where "i < n_layer cfg" "s \<in> set block_tails" "k = block_prefix i @ s"
proof -
  from assms have "k \<in> set (take 2 fixed_names) \<or>
      k \<in> set (concat (map (\<lambda>i. map (\<lambda>s. block_prefix i @ s) block_tails) [0..<n_layer cfg])) \<or>
      k \<in> set (drop 2 fixed_names)"
    unfolding GPT_names by (simp only: set_append Un_iff)
  then show ?thesis
    using that by (auto dest: in_set_takeD in_set_dropD)
qed

lemma GPT_names_not_buffers:
  assumes "k \<in> set (map fst (construct_parameters reset [] (GPT_modules cfg)))"
  shows "\<not> endswith k ''.attn.bias'' \<and> \<not> endswith k ''.attn.masked_bias''"
  using assms
proof (cases rule: GPT_names_cases)
  case fixed
  then show ?thesis by (rule not_buffer_fixed)
next
  case (block i s)
  then show ?thesis using not_buffer_tail [of s "block_prefix i"] by simp
qed

section \<open>An import that returns\<close>

lemma tensor_t_small:
  assumes "length (shape x) \<le> 2"
  shows "\<exists>t. tensor_t x = Inr t \<and> rev (shape t) = shape x \<and> length (shape t) \<le> 2"
proof (cases "shape x")
  case Nil
  then show ?thesis by (simp add: tensor_t_def)
next
  case (Cons r xs)
  note outer = Cons
  show ?thesis
  proof (cases xs)
    case Nil
    with outer show ?thesis by (simp add: tensor_t_def)
  next
    case (Cons c ys)
    with outer assms have "ys = []" by simp
    with outer Cons show ?thesis by (simp add: tensor_t_def)
  qed
qed

lemma tensor_t_reversed:
  assumes "rev (shape src) = shape dst" "length (shape dst) \<le> 2"
  shows "\<exists>t. tensor_t src = Inr t"
proof -
  have "length (rev (shape src)) = length (shape src)" by simp
  with assms have "length (shape src) \<le> 2" by simp
  from tensor_t_small [OF this] show ?thesis by blast
qed

lemma tensor_of_tensor_copy_shape:
  assumes "tensor_of m k' = Some dst"
  shows "\<exists>dst'. tensor_of (tensor_copy k t m) k' = Some dst' \<and> shape dst' = shape dst"
  using assms by (auto simp: tensor_of_def split: option.splits if_splits)

lemma copy_loop_succeeds:
  assumes "\<forall>k\<in>set ks. \<exists>src dst. map_of sd k = Some src \<and> tensor_of m k = Some dst \<and>
             (if is_transposed k then rev (shape src) = shape dst \<and> length (shape src) \<le> 2
              else shape src = shape dst)"
  shows "copy_loop sd ks m = Returned (copies sd ks m)"
  using assms
proof (induction ks arbitrary: m)
  case Nil
  then show ?case by (simp add: copies_def)
next
  case (Cons k ks)
  let ?m1 = "tensor_copy k (copied_value sd k) m"
  from Cons.prems obtain src dst where k: "map_of sd k = Some src" "tensor_of m k = Some dst"
    "if is_transposed k then rev (shape src) = shape dst \<and> length (shape src) \<le> 2
     else shape src = shape dst"
    by auto
  have step: "copy_param sd k m = Inr ?m1"
  proof (cases "is_transposed k")
    case True
    with k(3) have "length (shape src) \<le> 2" by simp
    from tensor_t_small [OF this] obtain t where "tensor_t src = Inr t" by blast
    with True k show ?thesis by (simp add: copy_param_def copied_value_def)
  next
    case False
    with k show ?thesis by (simp add: copy_param_def copied_value_def)
  qed
  have "\<forall>j\<in>set ks. \<exists>src dst. map_of sd j = Some src \<and> tensor_of ?m1 j = Some dst \<and>
             (if is_transposed j then rev (shape src) = shape dst \<and> length (shape src) \<le> 2
              else shape src = shape dst)"
  proof
    fix j assume "j \<in> set ks"
    with Cons.prems obtain s d where j: "map_of sd j = Some s" "tensor_of m j = Some d"
      "if is_transposed j then rev (shape s) = shape d \<and> length (shape s) \<le> 2
       else shape s = shape d"
      by auto
    from tensor_of_tensor_copy_shape [OF j(2), of k "copied_value sd k"]
    obtain d' where "tensor_of ?m1 j = Some d'" "shape d' = shape d" by blast
    with j show "\<exists>src dst. map_of sd j = Some src \<and> tensor_of ?m1 j = Some dst \<and>
             (if is_transposed j then rev (shape src) = shape dst \<and> length (shape src) \<le> 2
              else shape src = shape dst)"
      by auto
  qed
  from Cons.IH [OF this] step show ?case by (simp add: copies_Cons)
qed

lemma tensor_of_copies_Some:
  assumes "tensor_of (copies sd ks m) j = Some d'"
  obtains a where "map_of (params m) j = Some a" "a < length (heap m)"
    "tensor_of m j = Some (heap m ! a)" "shape d' = shape (heap m ! a)"
  using assms by (auto simp: tensor_of_def split: option.splits if_splits)

lemma copy_loop_Returned_key:
  assumes "copy_loop sd ks m = Returned m1" "ks = ks1 @ j # ks2"
  shows "\<exists>src dst v. map_of sd j = Some src \<and> tensor_of m j = Some dst \<and>
           (if is_transposed j then rev (shape src) = shape dst \<and> tensor_t src = Inr v
            else shape src = shape dst \<and> v = src) \<and>
           ((\<forall>i\<in>set ks2. map_of (params m) i \<noteq> map_of (params m) j) \<longrightarrow>
              tensor_of m1 j = Some (dst\<lparr>data := data v\<rparr>))"
proof -
  let ?v = "copied_value sd j"
  have m1: "m1 = copies sd (ks1 @ j # ks2) m"
    using copy_loop_Returned assms by blast
  have "copy_param sd j (copies sd ks1 m) = Inr (copies sd (ks1 @ [j]) m)"
    using assms by (intro copy_loop_Returned_prefix [where ?ks2.0 = ks2 and m' = m1]) simp
  from copy_param_Inr(2) [OF this] obtain src d' where s: "map_of sd j = Some src"
    "tensor_of (copies sd ks1 m) j = Some d'"
    "if is_transposed j then rev (shape src) = shape d' \<and> tensor_t src = Inr ?v
     else shape src = shape d' \<and> ?v = src"
    by blast
  from s(2) obtain a where a: "map_of (params m) j = Some a" "a < length (heap m)"
    "tensor_of m j = Some (heap m ! a)" "shape d' = shape (heap m ! a)"
    by (rule tensor_of_copies_Some)
  have "tensor_of m1 j = Some ((heap m ! a)\<lparr>data := data ?v\<rparr>)"
    if "\<forall>i\<in>set ks2. map_of (params m) i \<noteq> map_of (params m) j"
  proof -
    from that a(1) have "\<forall>i\<in>set ks2. map_of (params m) i \<noteq> Some a" by simp
    from heap_copies_last [OF a(1,2) this, of sd ks1] a(1,2) show ?thesis
      by (simp add: tensor_of_def m1)
  qed
  with s(1,3) a(3,4) show ?thesis
    by (intro exI [of _ src] exI [of _ "heap m ! a"] exI [of _ ?v]) (simp split: if_splits)
qed

lemma map_of_map_key:
  "map_of (map (\<lambda>(n, a). (n, g n a)) ps) k = map_option (g k) (map_of ps k)"
  by (induction ps) auto

lemma map_fst_exported [simp]: "map fst (exported m) = map fst (params m)"
  by (simp add: exported_def comp_def case_prod_unfold)

lemma filter_all: "\<forall>x\<in>set xs. P x \<Longrightarrow> filter P xs = xs"
  by (induction xs) simp_all

lemma GPT_keys:
  assumes "GPT_init cfg reset normal = Inr m"
  shows "local_keys m = map fst (params m)" "foreign_keys (exported m) = map fst (params m)"
proof -
  have n: "\<not> endswith k ''.attn.bias'' \<and> \<not> endswith k ''.attn.masked_bias''"
    if "k \<in> set (map fst (params m))" for k
    using that GPT_names_not_buffers [of k reset cfg] GPT_init_structure(1) [OF assms] by simp
  then show "local_keys m = map fst (params m)"
    unfolding local_keys_def by (intro filter_all) blast
  from n show "foreign_keys (exported m) = map fst (params m)"
    unfolding foreign_keys_def Let_def map_fst_exported
    by (simp add: filter_all)
qed

lemma import_exported:
  assumes "GPT_init cfg reset normal = Inr m"
  shows "import_checkpoint m (exported m) = Returned (copies (exported m) (map fst (params m)) m)"
proof -
  have "\<exists>src dst. map_of (exported m) k = Some src \<and> tensor_of m k = Some dst \<and>
             (if is_transposed k then rev (shape src) = shape dst \<and> length (shape src) \<le> 2
              else shape src = shape dst)"
    if "k \<in> set (map fst (params m))" for k
  proof -
    from that obtain a where a: "map_of (params m) k = Some a"
      by (metis (no_types) map_of_eq_None_iff not_Some_eq set_map)
    then have "a \<in> snd ` set (params m)"
      by (metis map_of_SomeD image_eqI snd_conv)
    with GPT_init_structure(2) [OF assms] have l1: "a < length (heap m)"
      by blast
    with GPT_init_structure(3) [OF assms] have l2: "length (shape (heap m ! a)) \<le> 2"
      by blast
    note l = l1 l2
    from tensor_t_small [OF l(2)] obtain t where t: "tensor_t (heap m ! a) = Inr t"
      "rev (shape t) = shape (heap m ! a)" "length (shape t) \<le> 2"
      by blast
    from a l(1) have "tensor_of m k = Some (heap m ! a)"
      by (simp add: tensor_of_def)
    moreover from a t(1) have "map_of (exported m) k =
        Some (if is_transposed k then t else heap m ! a)"
      by (simp add: exported_def map_of_map_key Let_def)
    ultimately show ?thesis
      using t(2,3) by simp
  qed
  then have "copy_loop (exported m) (map fst (params m)) m =
      Returned (copies (exported m) (map fst (params m)) m)"
    by (intro copy_loop_succeeds) blast
  then show ?thesis
    by (simp add: import_checkpoint_def Let_def GPT_keys [OF assms])
qed

lemma nth_concat_rows:
  assumes "j < c" "i < r"
  shows "concat (map (\<lambda>j. map (f j) [0..<r]) [0..<c]) ! (j * r + i) = f j i"
  using assms
proof (induction c arbitrary: j)
  case 0
  then show ?case by simp
next
  case (Suc c)
  show ?case
  proof (cases "j < c")
    case True
    have "j * r + i < Suc j * r"
      using Suc.prems(2) by simp
    also have "Suc j * r \<le> c * r"
      using True by (intro mult_le_mono1) simp
    finally have "j * r + i < c * r" .
    then show ?thesis
      using Suc.IH [OF True Suc.prems(2)] by (simp add: nth_append length_concat sum_list_triv comp_def)
  next
    case False
    with Suc.prems(1) have "j = c" by simp
    then show ?thesis
      using Suc.prems(2) by (simp add: nth_append length_concat sum_list_triv comp_def)
  qed
qed

lemma tensor_t_2d:
  assumes "shape src = [r, c]"
  shows "\<exists>st. tensor_t src = Inr st \<and> shape st = [c, r] \<and>
           (\<forall>i<r. \<forall>j<c. entry2 st j i = entry2 src i j)"
  using assms by (simp add: tensor_t_def entry2_def nth_concat_rows)

lemma from_pretrained_returns:
  assumes "from_pretrained model_type reset normal sd_hf = Inr m'"
  shows "\<exists>cfg m. config_args model_type = Some (n_layer cfg, n_head cfg, n_embd cfg) \<and>
           block_size cfg = 1024 \<and> vocab_size cfg = 50257 \<and>
           GPT_init cfg reset normal = Inr m \<and> import_checkpoint m sd_hf = Returned m'"
proof -
  from assms obtain l nh d where c: "config_args model_type = Some (l, nh, d)"
    by (auto simp: from_pretrained_def split: option.splits)
  let ?cfg = "\<lparr>block_size = 1024, vocab_size = 50257, n_layer = l, n_head = nh, n_embd = d\<rparr>"
  from assms c obtain m where m: "GPT_init ?cfg reset normal = Inr m"
    by (auto simp: from_pretrained_def Let_def split: sum.splits)
  from assms c m have "import_checkpoint m sd_hf = Returned m'"
    by (auto simp: from_pretrained_def Let_def split: import_result.splits)
  with c m show ?thesis
    by (intro exI [of _ ?cfg] exI [of _ m]) simp
qed

lemma from_pretrained_raises:
  assumes "config_args model_type = Some (l, nh, d)"
    and "GPT_init \<lparr>block_size = 1024, vocab_size = 50257, n_layer = l, n_head = nh, n_embd = d\<rparr>
           reset normal = Inr m"
    and "import_checkpoint m sd_hf = Raised e m2"
  shows "from_pretrained model_type reset normal sd_hf = Inl e"
  using assms by (simp add: from_pretrained_def Let_def)

lemma import_checkpoint_Returned_key:
  assumes "GPT_init cfg reset normal = Inr m" "import_checkpoint m sd_hf = Returned m'"
    and "foreign_keys sd_hf = ks1 @ k # ks2"
  shows "\<exists>src dst v. map_of sd_hf k = Some src \<and> tensor_of m k = Some dst \<and>
           (if k \<in> set (transposed_roles cfg)
            then rev (shape src) = shape dst \<and> tensor_t src = Inr v \<and>
                 (\<forall>r c. shape dst = [r, c] \<longrightarrow>
                    shape v = [r, c] \<and> (\<forall>i<r. \<forall>j<c. entry2 v i j = entry2 src j i))
            else shape src = shape dst \<and> v = src) \<and>
           ((\<forall>i\<in>set ks2. map_of (params m) i \<noteq> map_of (params m) k) \<longrightarrow>
              tensor_of m' k = Some (dst\<lparr>data := data v\<rparr>))"
proof -
  from assms(2) have loop: "copy_loop sd_hf (foreign_keys sd_hf) m = Returned m'"
    by (simp add: import_checkpoint_def Let_def split: if_splits)
  from copy_loop_Returned_key [OF loop assms(3)]
  obtain src dst v where s: "map_of sd_hf k = Some src" "tensor_of m k = Some dst"
    "if is_transposed k then rev (shape src) = shape dst \<and> tensor_t src = Inr v
     else shape src = shape dst \<and> v = src"
    "(\<forall>i\<in>set ks2. map_of (params m) i \<noteq> map_of (params m) k) \<longrightarrow>
       tensor_of m' k = Some (dst\<lparr>data := data v\<rparr>)"
    by blast
  from s(2) have "map_of (params m) k \<noteq> None"
    by (auto simp: tensor_of_def split: option.splits)
  then have "k \<in> fst ` set (params m)"
    by (simp add: map_of_eq_None_iff)
  then have "k \<in> set (map fst (params m))" by simp
  then have "k \<in> fst ` set (construct_parameters reset [] (GPT_modules cfg))"
    by (simp add: GPT_init_structure(1) [OF assms(1)])
  then have tr: "is_transposed k \<longleftrightarrow> k \<in> set (transposed_roles cfg)"
    by (rule is_transposed_GPT)
  have en: "shape v = [r, c] \<and> (\<forall>i<r. \<forall>j<c. entry2 v i j = entry2 src j i)"
    if "is_transposed k" "shape dst = [r, c]" for r c
  proof -
    from that s(3) have "rev (shape src) = [r, c]" "tensor_t src = Inr v" by simp_all
    then have "shape src = [c, r]" by (simp add: rev_swap)
    from tensor_t_2d [OF this] \<open>tensor_t src = Inr v\<close> show ?thesis by auto
  qed
  from s tr en show ?thesis
    by (intro exI [of _ src] exI [of _ dst] exI [of _ v]) (simp split: if_splits)
qed

section \<open>Imports of the example checkpoints\<close>

lemma GPT_init_Inr_ex:
  assumes "\<not> (0 < n_layer cfg \<and> n_head cfg = 0)"
    and "\<not> (0 < n_layer cfg \<and> n_embd cfg mod n_head cfg \<noteq> 0)"
  shows "\<exists>m. GPT_init cfg reset normal = Inr m"
  using assms by (simp add: GPT_init_def Let_def)

lemma GPT_init_gpt2: "GPT_init cfg_gpt2 sample_reset sample_normal = Inr model_gpt2"
proof -
  have "\<exists>m. GPT_init cfg_gpt2 sample_reset sample_normal = Inr m"
    by (rule GPT_init_Inr_ex) (simp_all add: cfg_gpt2_def)
  then show ?thesis
    by (auto simp: model_gpt2_def)
qed

lemma config_args_gpt2: "config_args ''gpt2'' = Some (n_layer cfg_gpt2, n_head cfg_gpt2, n_embd cfg_gpt2)"
  by (simp add: config_args_def cfg_gpt2_def)

lemma from_pretrained_gpt2_exported:
  "from_pretrained ''gpt2'' sample_reset sample_normal (exported model_gpt2) =
     Inr (copies (exported model_gpt2) (map fst (params model_gpt2)) model_gpt2)"
proof -
  have "GPT_init \<lparr>block_size = 1024, vocab_size = 50257, n_layer = 12, n_head = 12, n_embd = 768\<rparr>
          sample_reset sample_normal = Inr model_gpt2"
    using GPT_init_gpt2 by (simp add: cfg_gpt2_def)
  moreover have "config_args ''gpt2'' = Some (12, 12, 768)"
    by (simp add: config_args_def)
  ultimately show ?thesis
    by (simp add: from_pretrained_def Let_def import_exported [OF GPT_init_gpt2])
qed

lemma GPT_init_small: "GPT_init cfg_small sample_reset sample_normal = Inr model_small"
  by code_simp

lemma import_small:
  "import_checkpoint model_small sd_small =
     Returned (copies sd_small (foreign_keys sd_small) model_small)"
  by code_simp

lemma small_facts:
  "foreign_keys sd_small =
     take 6 (foreign_keys sd_small) @ ''transformer.h.0.attn.c_proj.weight'' #
     drop 7 (foreign_keys sd_small)"
  "''transformer.h.0.attn.c_proj.weight'' \<in> set (transposed_roles cfg_small)"
  "\<forall>i\<in>set (drop 7 (foreign_keys sd_small)).
      map_of (params model_small) i \<noteq> map_of (params model_small) ''transformer.h.0.attn.c_proj.weight''"
  "map_of sd_small ''transformer.h.0.attn.c_proj.weight'' = Some \<lparr>shape = [2, 2], data = [1, 2, 3, 4]\<rparr>"
  "tensor_of model_small ''transformer.h.0.attn.c_proj.weight'' = Some \<lparr>shape = [2, 2], data = [4, 4, 4, 4]\<rparr>"
  "tensor_t \<lparr>shape = [2, 2], data = [1, 2, 3, 4]\<rparr> = Inr \<lparr>shape = [2, 2], data = [1, 3, 2, 4]\<rparr>"
  by code_simp+

lemma small_facts_plain:
  "foreign_keys sd_small =
     take 1 (foreign_keys sd_small) @ ''transformer.wpe.weight'' # drop 2 (foreign_keys sd_small)"
  "''transformer.wpe.weight'' \<notin> set (transposed_roles cfg_small)"
  "\<forall>i\<in>set (drop 2 (foreign_keys sd_small)).
      map_of (params model_small) i \<noteq> map_of (params model_small) ''transformer.wpe.weight''"
  "map_of sd_small ''transformer.wpe.weight'' = Some \<lparr>shape = [1, 2], data = [5, 6]\<rparr>"
  "tensor_of model_small ''transformer.wpe.weight'' = Some \<lparr>shape = [1, 2], data = [1, 1]\<rparr>"
  by code_simp+

lemma length_block_names:
  "length (concat (map (\<lambda>i. map (\<lambda>s. block_prefix i @ s) block_tails) [0..<n])) = n * 12"
  by (induction n) (simp_all add: block_tails_def)

lemma length_params_gpt2: "length (params model_gpt2) = 150"
proof -
  have "length (map fst (params model_gpt2)) = 150"
    unfolding GPT_init_structure(1) [OF GPT_init_gpt2] GPT_names
    by (simp add: length_block_names fixed_names_def cfg_gpt2_def)
  then show ?thesis by simp
qed

lemma gpt2_one_fewer_keys:
  "length (local_keys model_gpt2) = 150" "length (foreign_keys sd_gpt2_one_fewer) = 149"
proof -
  show "length (local_keys model_gpt2) = 150"
    by (simp add: GPT_keys(1) [OF GPT_init_gpt2] length_params_gpt2)
  have n: "\<not> endswith k ''.attn.bias'' \<and> \<not> endswith k ''.attn.masked_bias''"
    if "k \<in> set (butlast (map fst (params model_gpt2)))" for k
    using in_set_butlastD [OF that] GPT_names_not_buffers [of k sample_reset cfg_gpt2]
      GPT_init_structure(1) [OF GPT_init_gpt2] by simp
  have "foreign_keys sd_gpt2_one_fewer = butlast (map fst (params model_gpt2))"
    unfolding foreign_keys_def Let_def sd_gpt2_one_fewer_def map_butlast map_fst_exported
    using n by (simp add: filter_all)
  then show "length (foreign_keys sd_gpt2_one_fewer) = 149"
    by (simp add: length_params_gpt2)
qed

lemma str_nat_gpt2: "str_nat 149 = ''149''" "str_nat 150 = ''150''"
  by code_simp+

lemma tiny_count_facts:
  "length (foreign_keys sd_one_fewer) \<noteq> length (local_keys model_tiny)"
  "str_nat (length (foreign_keys sd_one_fewer)) = ''17''"
  "str_nat (length (local_keys model_tiny)) = ''18''"
  by code_simp+

lemma bad_shape_facts:
  "length (foreign_keys sd_bad_shape) = length (local_keys model_tiny)"
  "foreign_keys sd_bad_shape =
     [''transformer.wte.weight''] @ ''transformer.wpe.weight'' # drop 2 (foreign_keys sd_bad_shape)"
  "copy_loop sd_bad_shape [''transformer.wte.weight''] model_tiny =
     Returned (tensor_copy ''transformer.wte.weight'' \<lparr>shape = [1, 1], data = [7]\<rparr> model_tiny)"
  "map_of sd_bad_shape ''transformer.wpe.weight'' = Some \<lparr>shape = [2, 1], data = [0, 0]\<rparr>"
  "tensor_of (tensor_copy ''transformer.wte.weight'' \<lparr>shape = [1, 1], data = [7]\<rparr> model_tiny)
     ''transformer.wpe.weight'' = Some \<lparr>shape = [1, 1], data = [1]\<rparr>"
  "\<not> is_transposed ''transformer.wpe.weight''"
  "\<forall>j\<in>set [''transformer.wte.weight'']. map_of (params model_tiny) j \<noteq> Some 1"
  "heap model_tiny ! 1 = \<lparr>shape = [1, 1], data = [1]\<rparr>"
  "map_of sd_bad_shape ''transformer.wte.weight'' = Some \<lparr>shape = [1, 1], data = [7]\<rparr>"
  "tensor_of model_tiny ''transformer.wte.weight'' = Some \<lparr>shape = [1, 1], data = [10]\<rparr>"
  "\<not> is_transposed ''transformer.wte.weight''"
  by code_simp+

lemma bad_tied_facts:
  "length (foreign_keys sd_bad_tied) = length (local_keys model_tiny)"
  "foreign_keys sd_bad_tied =
     take 16 (foreign_keys sd_bad_tied) @ ''lm_head.weight'' # drop 17 (foreign_keys sd_bad_tied)"
  "copy_loop sd_bad_tied (take 16 (foreign_keys sd_bad_tied)) model_tiny =
     Returned (copies sd_bad_tied (take 16 (foreign_keys sd_bad_tied)) model_tiny)"
  "map_of sd_bad_tied ''lm_head.weight'' = Some \<lparr>shape = [2, 1], data = [0, 0]\<rparr>"
  "tensor_of (copies sd_bad_tied (take 16 (foreign_keys sd_bad_tied)) model_tiny) ''lm_head.weight'' =
     Some \<lparr>shape = [1, 1], data = [7]\<rparr>"
  "\<not> is_transposed ''lm_head.weight''"
  "tensor_of model_tiny ''lm_head.weight'' = Some \<lparr>shape = [1, 1], data = [10]\<rparr>"
  "\<forall>j\<in>set (take 16 (foreign_keys sd_bad_tied)). map_of (params model_tiny) j \<noteq> Some 17"
  "heap model_tiny ! 17 = \<lparr>shape = [1], data = [0]\<rparr>"
  by code_simp+

section \<open>Where the import fails\<close>

text \<open>
  C2, as stated, fails. The model \<open>model_tiny\<close> is what the constructor builds; the
  foreign state dict \<open>sd_bad_shape\<close> has as many keys as the model. The import raises at
  the second key, whose shape differs, and by then the tensor of the first key has been
  overwritten: it reads \<open>[7]\<close> where it read \<open>[10]\<close>.
\<close>

theorem import_not_atomic:
  "GPT_init cfg_tiny sample_reset sample_normal = Inr model_tiny \<and>
   length (foreign_keys sd_bad_shape) = length (local_keys model_tiny) \<and>
   import_checkpoint model_tiny sd_bad_shape =
     Raised (AssertionError [])
       (tensor_copy ''transformer.wte.weight'' \<lparr>shape = [1, 1], data = [7]\<rparr> model_tiny) \<and>
   tensor_of (tensor_copy ''transformer.wte.weight'' \<lparr>shape = [1, 1], data = [7]\<rparr> model_tiny)
     ''transformer.wte.weight'' = Some \<lparr>shape = [1, 1], data = [7]\<rparr> \<and>
   tensor_of model_tiny ''transformer.wte.weight'' = Some \<lparr>shape = [1, 1], data = [10]\<rparr>"
  by code_simp

text \<open>
  C2, amended. The count of the keys is compared before the loop: when the counts
  differ, the import raises the count-mismatch error with the model as it was. The
  shapes are compared inside the loop, key by key. When the body of the loop fails at
  the key \<open>k\<close>, after the keys \<open>ks\<close>, the import raises that error in the state \<open>m1\<close>
  that the loop has reached: no name is rebound; every tensor that no key of \<open>ks\<close> names
  is as it was, so the tensors of \<open>k\<close> and of the later keys are untouched unless an
  earlier key names them too (as \<open>transformer.wte.weight\<close> names the tensor of
  \<open>lm_head.weight\<close>); and the tensor of every key \<open>j\<close> of \<open>ks\<close> holds the data of the
  foreign tensor of \<open>j\<close>, transposed for the transposed names, unless a key between \<open>j\<close>
  and \<open>k\<close> names the same tensor and has overwritten it in turn. The body fails with an
  assertion error when the shape of the foreign tensor of \<open>k\<close> is not the (reversed, for
  the transposed names) shape of the local one. When the import raises,
  \<open>from_pretrained\<close> raises the same error and returns no model.
\<close>

theorem import_failure_points:
  "(length (foreign_keys sd_hf) \<noteq> length (local_keys m) \<longrightarrow>
      import_checkpoint m sd_hf =
        Raised (AssertionError (''mismatched keys: '' @ str_nat (length (foreign_keys sd_hf)) @
                                '' != '' @ str_nat (length (local_keys m)))) m) \<and>
   (length (foreign_keys sd_hf) = length (local_keys m) \<and> foreign_keys sd_hf = ks @ k # ks' \<and>
    copy_loop sd_hf ks m = Returned m1 \<and> copy_param sd_hf k m1 = Inl e \<longrightarrow>
      import_checkpoint m sd_hf = Raised e m1 \<and> params m1 = params m \<and>
      (\<forall>a. (\<forall>j\<in>set ks. map_of (params m) j \<noteq> Some a) \<longrightarrow> heap m1 ! a = heap m ! a) \<and>
      (\<forall>ks1 j ks2. ks = ks1 @ j # ks2 \<longrightarrow>
         (\<exists>src dst v. map_of sd_hf j = Some src \<and> tensor_of m j = Some dst \<and>
            (if is_transposed j then tensor_t src = Inr v else v = src) \<and>
            ((\<forall>i\<in>set ks2. map_of (params m) i \<noteq> map_of (params m) j) \<longrightarrow>
               tensor_of m1 j = Some (dst\<lparr>data := data v\<rparr>))))) \<and>
   (map_of sd_hf k = Some src \<and> tensor_of m1 k = Some dst \<and>
    (if is_transposed k then rev (shape src) \<noteq> shape dst else shape src \<noteq> shape dst) \<longrightarrow>
      copy_param sd_hf k m1 = Inl (AssertionError [])) \<and>
   (config_args model_type = Some (l, nh, d) \<and>
    GPT_init \<lparr>block_size = 1024, vocab_size = 50257, n_layer = l, n_head = nh, n_embd = d\<rparr>
      reset normal = Inr m \<and>
    import_checkpoint m sd_hf = Raised e m2 \<longrightarrow>
      from_pretrained model_type reset normal sd_hf = Inl e)"
proof (intro conjI impI)
  assume "length (foreign_keys sd_hf) \<noteq> length (local_keys m)"
  then show "import_checkpoint m sd_hf =
        Raised (AssertionError (''mismatched keys: '' @ str_nat (length (foreign_keys sd_hf)) @
                                '' != '' @ str_nat (length (local_keys m)))) m"
    by (simp add: import_checkpoint_def Let_def)
next
  assume a: "length (foreign_keys sd_hf) = length (local_keys m) \<and>
    foreign_keys sd_hf = ks @ k # ks' \<and>
    copy_loop sd_hf ks m = Returned m1 \<and> copy_param sd_hf k m1 = Inl e"
  then have l: "length (foreign_keys sd_hf) = length (local_keys m)"
    and f: "foreign_keys sd_hf = ks @ k # ks'"
    and r: "copy_loop sd_hf ks m = Returned m1" and c: "copy_param sd_hf k m1 = Inl e"
    by blast+
  have m1: "m1 = copies sd_hf ks m"
    using r by (rule copy_loop_Returned)
  from r c have "copy_loop sd_hf (ks @ k # ks') m = Raised e m1"
    by (simp add: copy_loop_append)
  moreover from l have "import_checkpoint m sd_hf = copy_loop sd_hf (foreign_keys sd_hf) m"
    by (simp add: import_checkpoint_def Let_def)
  ultimately show "import_checkpoint m sd_hf = Raised e m1"
    using f by simp
  show "params m1 = params m"
    by (simp add: m1)
  show "\<forall>a. (\<forall>j\<in>set ks. map_of (params m) j \<noteq> Some a) \<longrightarrow> heap m1 ! a = heap m ! a"
    by (simp add: m1 heap_copies_untouched)
  show "\<forall>ks1 j ks2. ks = ks1 @ j # ks2 \<longrightarrow>
         (\<exists>src dst v. map_of sd_hf j = Some src \<and> tensor_of m j = Some dst \<and>
            (if is_transposed j then tensor_t src = Inr v else v = src) \<and>
            ((\<forall>i\<in>set ks2. map_of (params m) i \<noteq> map_of (params m) j) \<longrightarrow>
               tensor_of m1 j = Some (dst\<lparr>data := data v\<rparr>)))"
  proof (intro allI impI)
    fix ks1 j ks2 assume d: "ks = ks1 @ j # ks2"
    from copy_loop_Returned_key [OF r d]
    obtain src dst v where "map_of sd_hf j = Some src" "tensor_of m j = Some dst"
      "if is_transposed j then rev (shape src) = shape dst \<and> tensor_t src = Inr v
       else shape src = shape dst \<and> v = src"
      "(\<forall>i\<in>set ks2. map_of (params m) i \<noteq> map_of (params m) j) \<longrightarrow>
         tensor_of m1 j = Some (dst\<lparr>data := data v\<rparr>)"
      by blast
    then show "\<exists>src dst v. map_of sd_hf j = Some src \<and> tensor_of m j = Some dst \<and>
            (if is_transposed j then tensor_t src = Inr v else v = src) \<and>
            ((\<forall>i\<in>set ks2. map_of (params m) i \<noteq> map_of (params m) j) \<longrightarrow>
               tensor_of m1 j = Some (dst\<lparr>data := data v\<rparr>))"
      by (intro exI [of _ src] exI [of _ dst] exI [of _ v]) (simp split: if_splits)
  qed
next
  assume "map_of sd_hf k = Some src \<and> tensor_of m1 k = Some dst \<and>
    (if is_transposed k then rev (shape src) \<noteq> shape dst else shape src \<noteq> shape dst)"
  then show "copy_param sd_hf k m1 = Inl (AssertionError [])"
    by (simp add: copy_param_def split: if_splits)
next
  assume "config_args model_type = Some (l, nh, d) \<and>
    GPT_init \<lparr>block_size = 1024, vocab_size = 50257, n_layer = l, n_head = nh, n_embd = d\<rparr>
      reset normal = Inr m \<and>
    import_checkpoint m sd_hf = Raised e m2"
  then show "from_pretrained model_type reset normal sd_hf = Inl e"
    using from_pretrained_raises by blast
qed

theorem import_failure_points_witness:
  "length (foreign_keys sd_one_fewer) \<noteq> length (local_keys model_tiny) \<and>
   import_checkpoint model_tiny sd_one_fewer =
     Raised (AssertionError ''mismatched keys: 17 != 18'') model_tiny \<and>
   config_args ''gpt2'' = Some (12, 12, 768) \<and>
   GPT_init \<lparr>block_size = 1024, vocab_size = 50257, n_layer = 12, n_head = 12, n_embd = 768\<rparr>
     sample_reset sample_normal = Inr model_gpt2 \<and>
   length (foreign_keys sd_gpt2_one_fewer) \<noteq> length (local_keys model_gpt2) \<and>
   import_checkpoint model_gpt2 sd_gpt2_one_fewer =
     Raised (AssertionError ''mismatched keys: 149 != 150'') model_gpt2 \<and>
   from_pretrained ''gpt2'' sample_reset sample_normal sd_gpt2_one_fewer =
     Inl (AssertionError ''mismatched keys: 149 != 150'') \<and>
   length (foreign_keys sd_bad_shape) = length (local_keys model_tiny) \<and>
   foreign_keys sd_bad_shape =
     [''transformer.wte.weight''] @ ''transformer.wpe.weight'' # drop 2 (foreign_keys sd_bad_shape) \<and>
   copy_loop sd_bad_shape [''transformer.wte.weight''] model_tiny =
     Returned (tensor_copy ''transformer.wte.weight'' \<lparr>shape = [1, 1], data = [7]\<rparr> model_tiny) \<and>
   map_of sd_bad_shape ''transformer.wpe.weight'' = Some \<lparr>shape = [2, 1], data = [0, 0]\<rparr> \<and>
   tensor_of (tensor_copy ''transformer.wte.weight'' \<lparr>shape = [1, 1], data = [7]\<rparr> model_tiny)
     ''transformer.wpe.weight'' = Some \<lparr>shape = [1, 1], data = [1]\<rparr> \<and>
   copy_param sd_bad_shape ''transformer.wpe.weight''
     (tensor_copy ''transformer.wte.weight'' \<lparr>shape = [1, 1], data = [7]\<rparr> model_tiny) =
     Inl (AssertionError []) \<and>
   import_checkpoint model_tiny sd_bad_shape =
     Raised (AssertionError [])
       (tensor_copy ''transformer.wte.weight'' \<lparr>shape = [1, 1], data = [7]\<rparr> model_tiny) \<and>
   params (tensor_copy ''transformer.wte.weight'' \<lparr>shape = [1, 1], data = [7]\<rparr> model_tiny) =
     params model_tiny \<and>
   list_all (\<lambda>j. map_of (params model_tiny) j \<noteq> Some 1) [''transformer.wte.weight''] \<and>
   heap (tensor_copy ''transformer.wte.weight'' \<lparr>shape = [1, 1], data = [7]\<rparr> model_tiny) ! 1 =
     \<lparr>shape = [1, 1], data = [1]\<rparr> \<and>
   tensor_of model_tiny ''transformer.wte.weight'' = Some \<lparr>shape = [1, 1], data = [10]\<rparr> \<and>
   tensor_of (tensor_copy ''transformer.wte.weight'' \<lparr>shape = [1, 1], data = [7]\<rparr> model_tiny)
     ''transformer.wte.weight'' = Some \<lparr>shape = [1, 1], data = [7]\<rparr> \<and>
   length (foreign_keys sd_bad_tied) = length (local_keys model_tiny) \<and>
   foreign_keys sd_bad_tied =
     take 16 (foreign_keys sd_bad_tied) @ ''lm_head.weight'' # drop 17 (foreign_keys sd_bad_tied) \<and>
   copy_loop sd_bad_tied (take 16 (foreign_keys sd_bad_tied)) model_tiny =
     Returned (copies sd_bad_tied (take 16 (foreign_keys sd_bad_tied)) model_tiny) \<and>
   map_of sd_bad_tied ''lm_head.weight'' = Some \<lparr>shape = [2, 1], data = [0, 0]\<rparr> \<and>
   tensor_of model_tiny ''lm_head.weight'' = Some \<lparr>shape = [1, 1], data = [10]\<rparr> \<and>
   tensor_of (copies sd_bad_tied (take 16 (foreign_keys sd_bad_tied)) model_tiny) ''lm_head.weight'' =
     Some \<lparr>shape = [1, 1], data = [7]\<rparr> \<and>
   import_checkpoint model_tiny sd_bad_tied =
     Raised (AssertionError []) (copies sd_bad_tied (take 16 (foreign_keys sd_bad_tied)) model_tiny) \<and>
   list_all (\<lambda>j. map_of (params model_tiny) j \<noteq> Some 17) (take 16 (foreign_keys sd_bad_tied)) \<and>
   heap (copies sd_bad_tied (take 16 (foreign_keys sd_bad_tied)) model_tiny) ! 17 =
     \<lparr>shape = [1], data = [0]\<rparr>"
proof -
  let ?wte = "''transformer.wte.weight''" and ?wpe = "''transformer.wpe.weight''"
  let ?m1 = "tensor_copy ?wte \<lparr>shape = [1, 1], data = [7]\<rparr> model_tiny"
  let ?ks = "take 16 (foreign_keys sd_bad_tied)"
  let ?m2 = "copies sd_bad_tied ?ks model_tiny"
  let ?msg = "''mismatched keys: 149 != 150''"
  note s = bad_shape_facts and t = bad_tied_facts
  from import_failure_points [where sd_hf = sd_one_fewer and m = model_tiny, THEN conjunct1]
    tiny_count_facts
  have a: "import_checkpoint model_tiny sd_one_fewer =
     Raised (AssertionError ''mismatched keys: 17 != 18'') model_tiny"
    by simp
  have c: "config_args ''gpt2'' = Some (12, 12, 768)"
    by (simp add: config_args_def)
  have i: "GPT_init \<lparr>block_size = 1024, vocab_size = 50257, n_layer = 12, n_head = 12, n_embd = 768\<rparr>
     sample_reset sample_normal = Inr model_gpt2"
    using GPT_init_gpt2 by (simp add: cfg_gpt2_def)
  have n: "length (foreign_keys sd_gpt2_one_fewer) \<noteq> length (local_keys model_gpt2)"
    by (simp add: gpt2_one_fewer_keys)
  from import_failure_points [where sd_hf = sd_gpt2_one_fewer and m = model_gpt2, THEN conjunct1] n
  have g: "import_checkpoint model_gpt2 sd_gpt2_one_fewer = Raised (AssertionError ?msg) model_gpt2"
    by (simp add: gpt2_one_fewer_keys str_nat_gpt2)
  from import_failure_points [where sd_hf = sd_gpt2_one_fewer and m = model_gpt2
      and model_type = "''gpt2''" and l = 12 and nh = 12 and d = 768 and reset = sample_reset
      and normal = sample_normal and e = "AssertionError ?msg" and ?m2.0 = model_gpt2,
      THEN conjunct2, THEN conjunct2, THEN conjunct2] c i g
  have f: "from_pretrained ''gpt2'' sample_reset sample_normal sd_gpt2_one_fewer =
     Inl (AssertionError ?msg)"
    by blast
  from import_failure_points [where sd_hf = sd_bad_shape and k = ?wpe and ?m1.0 = ?m1
      and src = "\<lparr>shape = [2, 1], data = [0, 0]\<rparr>" and dst = "\<lparr>shape = [1, 1], data = [1]\<rparr>",
      THEN conjunct2, THEN conjunct2, THEN conjunct1] s(4,5,6)
  have e: "copy_param sd_bad_shape ?wpe ?m1 = Inl (AssertionError [])"
    by simp
  from import_failure_points [where sd_hf = sd_bad_shape and m = model_tiny and ks = "[?wte]"
      and k = ?wpe and ks' = "drop 2 (foreign_keys sd_bad_shape)" and ?m1.0 = ?m1
      and e = "AssertionError []", THEN conjunct2, THEN conjunct1] s(1,2,3) e
  have r: "import_checkpoint model_tiny sd_bad_shape = Raised (AssertionError []) ?m1"
    "params ?m1 = params model_tiny"
    "\<forall>a. (\<forall>j\<in>set [?wte]. map_of (params model_tiny) j \<noteq> Some a) \<longrightarrow>
        heap ?m1 ! a = heap model_tiny ! a"
    "\<forall>ks1 j ks2. [?wte] = ks1 @ j # ks2 \<longrightarrow>
       (\<exists>src dst v. map_of sd_bad_shape j = Some src \<and> tensor_of model_tiny j = Some dst \<and>
          (if is_transposed j then tensor_t src = Inr v else v = src) \<and>
          ((\<forall>i\<in>set ks2. map_of (params model_tiny) i \<noteq> map_of (params model_tiny) j) \<longrightarrow>
             tensor_of ?m1 j = Some (dst\<lparr>data := data v\<rparr>)))"
    by blast+
  from r(3) s(7,8) have u: "heap ?m1 ! 1 = \<lparr>shape = [1, 1], data = [1]\<rparr>"
    by simp
  from r(4) [rule_format, of "[]" ?wte "[]"]
  obtain src dst v where w: "map_of sd_bad_shape ?wte = Some src"
    "tensor_of model_tiny ?wte = Some dst"
    "if is_transposed ?wte then tensor_t src = Inr v else v = src"
    "tensor_of ?m1 ?wte = Some (dst\<lparr>data := data v\<rparr>)"
    by auto
  from w(1) s(9) have "src = \<lparr>shape = [1, 1], data = [7]\<rparr>" by simp
  moreover from w(2) s(10) have "dst = \<lparr>shape = [1, 1], data = [10]\<rparr>" by simp
  moreover from w(3) s(11) have "v = src" by simp
  ultimately have o: "tensor_of ?m1 ?wte = Some \<lparr>shape = [1, 1], data = [7]\<rparr>"
    using w(4) by simp
  from import_failure_points [where sd_hf = sd_bad_tied and k = "''lm_head.weight''" and ?m1.0 = ?m2
      and src = "\<lparr>shape = [2, 1], data = [0, 0]\<rparr>" and dst = "\<lparr>shape = [1, 1], data = [7]\<rparr>",
      THEN conjunct2, THEN conjunct2, THEN conjunct1] t(4,5,6)
  have e': "copy_param sd_bad_tied ''lm_head.weight'' ?m2 = Inl (AssertionError [])"
    by simp
  from import_failure_points [where sd_hf = sd_bad_tied and m = model_tiny and ks = ?ks
      and k = "''lm_head.weight''" and ks' = "drop 17 (foreign_keys sd_bad_tied)" and ?m1.0 = ?m2
      and e = "AssertionError []", THEN conjunct2, THEN conjunct1] t(1,2,3) e'
  have r': "import_checkpoint model_tiny sd_bad_tied = Raised (AssertionError []) ?m2"
    "\<forall>a. (\<forall>j\<in>set ?ks. map_of (params model_tiny) j \<noteq> Some a) \<longrightarrow>
        heap ?m2 ! a = heap model_tiny ! a"
    by blast+
  from r'(2) t(8,9) have u': "heap ?m2 ! 17 = \<lparr>shape = [1], data = [0]\<rparr>"
    by simp
  have q: "list_all (\<lambda>j. map_of (params model_tiny) j \<noteq> Some 1) [?wte]"
    "list_all (\<lambda>j. map_of (params model_tiny) j \<noteq> Some 17) ?ks"
    using s(7) t(8) unfolding list_all_iff by blast+
  from tiny_count_facts(1) a c i n g f s(1,2,3,4,5) e r(1,2) q(1) u s(10) o
    t(1,2,3,4,7,5) r'(1) q(2) u'
  show ?thesis by (intro conjI)
qed

section \<open>What the import checks and copies\<close>

text \<open>
  C6. Whenever \<open>from_pretrained\<close> returns a model \<open>m'\<close>, it is what the import of the
  foreign state dict into a freshly constructed model \<open>m\<close> returned. For such an import
  and every foreign key \<open>k\<close>, with the foreign tensor \<open>src\<close> and the local tensor \<open>dst\<close>:
  if \<open>k\<close> is one of the four roles of a block (\<open>attn.c_attn.weight\<close>,
  \<open>attn.c_proj.weight\<close>, \<open>mlp.c_fc.weight\<close>, \<open>mlp.c_proj.weight\<close>), the foreign shape is
  the local shape reversed and the value copied is the transpose of \<open>src\<close>, entry
  \<open>[i][j]\<close> being entry \<open>[j][i]\<close> of \<open>src\<close>; for every other key the two shapes are equal
  and the value copied is \<open>src\<close> itself. In the model returned the tensor of \<open>k\<close> is the
  local tensor with the data of the value copied, unless a later key names the same
  tensor (as \<open>lm_head.weight\<close> does for \<open>transformer.wte.weight\<close>).
\<close>

theorem import_transposes_four_roles:
  "(from_pretrained model_type reset normal sd_hf = Inr m' \<longrightarrow>
      (\<exists>cfg m. config_args model_type = Some (n_layer cfg, n_head cfg, n_embd cfg) \<and>
         block_size cfg = 1024 \<and> vocab_size cfg = 50257 \<and>
         GPT_init cfg reset normal = Inr m \<and> import_checkpoint m sd_hf = Returned m')) \<and>
   (GPT_init cfg reset normal = Inr m \<and> import_checkpoint m sd_hf = Returned m' \<and>
    foreign_keys sd_hf = ks1 @ k # ks2 \<longrightarrow>
      (\<exists>src dst v. map_of sd_hf k = Some src \<and> tensor_of m k = Some dst \<and>
         (if k \<in> set (transposed_roles cfg)
          then rev (shape src) = shape dst \<and> tensor_t src = Inr v \<and>
               (\<forall>r c. shape dst = [r, c] \<longrightarrow>
                  shape v = [r, c] \<and> (\<forall>i<r. \<forall>j<c. entry2 v i j = entry2 src j i))
          else shape src = shape dst \<and> v = src) \<and>
         ((\<forall>i\<in>set ks2. map_of (params m) i \<noteq> map_of (params m) k) \<longrightarrow>
            tensor_of m' k = Some (dst\<lparr>data := data v\<rparr>))))"
proof (intro conjI impI)
  assume "from_pretrained model_type reset normal sd_hf = Inr m'"
  then show "\<exists>cfg m. config_args model_type = Some (n_layer cfg, n_head cfg, n_embd cfg) \<and>
         block_size cfg = 1024 \<and> vocab_size cfg = 50257 \<and>
         GPT_init cfg reset normal = Inr m \<and> import_checkpoint m sd_hf = Returned m'"
    by (rule from_pretrained_returns)
next
  assume a: "GPT_init cfg reset normal = Inr m \<and> import_checkpoint m sd_hf = Returned m' \<and>
    foreign_keys sd_hf = ks1 @ k # ks2"
  then have "GPT_init cfg reset normal = Inr m" "import_checkpoint m sd_hf = Returned m'"
    "foreign_keys sd_hf = ks1 @ k # ks2"
    by blast+
  then show "\<exists>src dst v. map_of sd_hf k = Some src \<and> tensor_of m k = Some dst \<and>
         (if k \<in> set (transposed_roles cfg)
          then rev (shape src) = shape dst \<and> tensor_t src = Inr v \<and>
               (\<forall>r c. shape dst = [r, c] \<longrightarrow>
                  shape v = [r, c] \<and> (\<forall>i<r. \<forall>j<c. entry2 v i j = entry2 src j i))
          else shape src = shape dst \<and> v = src) \<and>
         ((\<forall>i\<in>set ks2. map_of (params m) i \<noteq> map_of (params m) k) \<longrightarrow>
            tensor_of m' k = Some (dst\<lparr>data := data v\<rparr>))"
    by (rule import_checkpoint_Returned_key)
qed

theorem import_transposes_four_roles_witness:
  "from_pretrained ''gpt2'' sample_reset sample_normal (exported model_gpt2) =
     Inr (copies (exported model_gpt2) (map fst (params model_gpt2)) model_gpt2) \<and>
   (\<exists>cfg m. config_args ''gpt2'' = Some (n_layer cfg, n_head cfg, n_embd cfg) \<and>
      block_size cfg = 1024 \<and> vocab_size cfg = 50257 \<and>
      GPT_init cfg sample_reset sample_normal = Inr m \<and>
      import_checkpoint m (exported model_gpt2) =
        Returned (copies (exported model_gpt2) (map fst (params model_gpt2)) model_gpt2)) \<and>
   GPT_init cfg_small sample_reset sample_normal = Inr model_small \<and>
   import_checkpoint model_small sd_small =
     Returned (copies sd_small (foreign_keys sd_small) model_small) \<and>
   foreign_keys sd_small =
     take 6 (foreign_keys sd_small) @ ''transformer.h.0.attn.c_proj.weight'' #
     drop 7 (foreign_keys sd_small) \<and>
   ''transformer.h.0.attn.c_proj.weight'' \<in> set (transposed_roles cfg_small) \<and>
   list_all (\<lambda>i. map_of (params model_small) i \<noteq>
               map_of (params model_small) ''transformer.h.0.attn.c_proj.weight'')
     (drop 7 (foreign_keys sd_small)) \<and>
   map_of sd_small ''transformer.h.0.attn.c_proj.weight'' = Some \<lparr>shape = [2, 2], data = [1, 2, 3, 4]\<rparr> \<and>
   tensor_of model_small ''transformer.h.0.attn.c_proj.weight'' = Some \<lparr>shape = [2, 2], data = [4, 4, 4, 4]\<rparr> \<and>
   tensor_of (copies sd_small (foreign_keys sd_small) model_small) ''transformer.h.0.attn.c_proj.weight''
     = Some \<lparr>shape = [2, 2], data = [1, 3, 2, 4]\<rparr> \<and>
   foreign_keys sd_small =
     take 1 (foreign_keys sd_small) @ ''transformer.wpe.weight'' # drop 2 (foreign_keys sd_small) \<and>
   ''transformer.wpe.weight'' \<notin> set (transposed_roles cfg_small) \<and>
   list_all (\<lambda>i. map_of (params model_small) i \<noteq>
               map_of (params model_small) ''transformer.wpe.weight'')
     (drop 2 (foreign_keys sd_small)) \<and>
   map_of sd_small ''transformer.wpe.weight'' = Some \<lparr>shape = [1, 2], data = [5, 6]\<rparr> \<and>
   tensor_of model_small ''transformer.wpe.weight'' = Some \<lparr>shape = [1, 2], data = [1, 1]\<rparr> \<and>
   tensor_of (copies sd_small (foreign_keys sd_small) model_small) ''transformer.wpe.weight''
     = Some \<lparr>shape = [1, 2], data = [5, 6]\<rparr>"
proof -
  let ?k = "''transformer.h.0.attn.c_proj.weight''" and ?j = "''transformer.wpe.weight''"
  let ?m' = "copies sd_small (foreign_keys sd_small) model_small"
  let ?g = "copies (exported model_gpt2) (map fst (params model_gpt2)) model_gpt2"
  have g: "\<exists>cfg m. config_args ''gpt2'' = Some (n_layer cfg, n_head cfg, n_embd cfg) \<and>
      block_size cfg = 1024 \<and> vocab_size cfg = 50257 \<and>
      GPT_init cfg sample_reset sample_normal = Inr m \<and>
      import_checkpoint m (exported model_gpt2) = Returned ?g"
    using import_transposes_four_roles [of "''gpt2''" sample_reset sample_normal "exported model_gpt2" ?g]
      from_pretrained_gpt2_exported by blast
  from import_transposes_four_roles [of _ sample_reset sample_normal sd_small ?m' cfg_small model_small
      "take 6 (foreign_keys sd_small)" ?k "drop 7 (foreign_keys sd_small)"]
    GPT_init_small import_small small_facts(1)
  obtain src dst v where r: "map_of sd_small ?k = Some src" "tensor_of model_small ?k = Some dst"
    "if ?k \<in> set (transposed_roles cfg_small)
     then rev (shape src) = shape dst \<and> tensor_t src = Inr v \<and>
          (\<forall>r c. shape dst = [r, c] \<longrightarrow>
             shape v = [r, c] \<and> (\<forall>i<r. \<forall>j<c. entry2 v i j = entry2 src j i))
     else shape src = shape dst \<and> v = src"
    "(\<forall>i\<in>set (drop 7 (foreign_keys sd_small)).
        map_of (params model_small) i \<noteq> map_of (params model_small) ?k) \<longrightarrow>
     tensor_of ?m' ?k = Some (dst\<lparr>data := data v\<rparr>)"
    by blast
  from r(1) small_facts(4) have src: "src = \<lparr>shape = [2, 2], data = [1, 2, 3, 4]\<rparr>" by simp
  from r(2) small_facts(5) have dst: "dst = \<lparr>shape = [2, 2], data = [4, 4, 4, 4]\<rparr>" by simp
  from r(3) small_facts(2) have "tensor_t src = Inr v" by simp
  with src small_facts(6) have v: "v = \<lparr>shape = [2, 2], data = [1, 3, 2, 4]\<rparr>" by simp
  from r(4) small_facts(3) have "tensor_of ?m' ?k = Some (dst\<lparr>data := data v\<rparr>)" by blast
  with dst v have a: "tensor_of ?m' ?k = Some \<lparr>shape = [2, 2], data = [1, 3, 2, 4]\<rparr>" by simp
  from import_transposes_four_roles [of _ sample_reset sample_normal sd_small ?m' cfg_small model_small
      "take 1 (foreign_keys sd_small)" ?j "drop 2 (foreign_keys sd_small)"]
    GPT_init_small import_small small_facts_plain(1)
  obtain src' dst' v' where p: "map_of sd_small ?j = Some src'" "tensor_of model_small ?j = Some dst'"
    "if ?j \<in> set (transposed_roles cfg_small)
     then rev (shape src') = shape dst' \<and> tensor_t src' = Inr v' \<and>
          (\<forall>r c. shape dst' = [r, c] \<longrightarrow>
             shape v' = [r, c] \<and> (\<forall>i<r. \<forall>j<c. entry2 v' i j = entry2 src' j i))
     else shape src' = shape dst' \<and> v' = src'"
    "(\<forall>i\<in>set (drop 2 (foreign_keys sd_small)).
        map_of (params model_small) i \<noteq> map_of (params model_small) ?j) \<longrightarrow>
     tensor_of ?m' ?j = Some (dst'\<lparr>data := data v'\<rparr>)"
    by blast
  from p(1) small_facts_plain(4) have src': "src' = \<lparr>shape = [1, 2], data = [5, 6]\<rparr>" by simp
  from p(2) small_facts_plain(5) have dst': "dst' = \<lparr>shape = [1, 2], data = [1, 1]\<rparr>" by simp
  from p(3) small_facts_plain(2) have "v' = src'" by simp
  moreover from p(4) small_facts_plain(3) have "tensor_of ?m' ?j = Some (dst'\<lparr>data := data v'\<rparr>)"
    by blast
  ultimately have b: "tensor_of ?m' ?j = Some \<lparr>shape = [1, 2], data = [5, 6]\<rparr>"
    using src' dst' by simp
  have l: "list_all (\<lambda>i. map_of (params model_small) i \<noteq> map_of (params model_small) ?k)
       (drop 7 (foreign_keys sd_small))"
    "list_all (\<lambda>i. map_of (params model_small) i \<noteq> map_of (params model_small) ?j)
       (drop 2 (foreign_keys sd_small))"
    using small_facts(3) small_facts_plain(3) unfolding list_all_iff by blast+
  from from_pretrained_gpt2_exported g GPT_init_small import_small small_facts(1,2) l(1)
    small_facts(4,5) a small_facts_plain(1,2) l(2) small_facts_plain(4,5) b
  show ?thesis by (intro conjI)
qed

end
